theory Spec2Isabelle
  imports Main "HOL-Library.Word"
begin

section \<open>The executor runtime of vc: data model\<close>

text \<open>
  The executor (package \<open>executor\<close>) drives a transactional store through the
  interface \<open>storage.Storage\<close>. The model keeps the executor's own control flow as
  the source has it. Everything outside the executor (the store, the AI supervisor,
  the sandbox manager, the agent subprocess, the clock) is an environment whose
  replies are read from a \<open>world\<close>: the model never chooses a reply, so a theorem
  quantified over all worlds holds for every behaviour of the collaborators.

  Go's \<open>int\<close> and \<open>time.Duration\<close> are 64-bit two's complement integers
  (\<open>int\<close> on a 64-bit platform); \<open>sint\<close> reads them.
\<close>

type_synonym go_int = "64 word"
type_synonym duration = "64 word"

definition Second :: duration where
  "Second = 1000000000"

definition Minute :: duration where
  "Minute = 60 * Second"

definition Hour :: duration where
  "Hour = 60 * Minute"

text \<open>
  Errors as values. \<open>Canceled\<close> and \<open>DeadlineExceeded\<close> are what \<open>ctx.Err()\<close>
  reports; \<open>Wrapped p e\<close> is \<open>fmt.Errorf("p: %w", e)\<close>.
\<close>

datatype go_error = Canceled | DeadlineExceeded | Failure string | Wrapped string go_error

fun error_text :: "go_error \<Rightarrow> string" where
  "error_text Canceled = ''context canceled''"
| "error_text DeadlineExceeded = ''context deadline exceeded''"
| "error_text (Failure s) = s"
| "error_text (Wrapped p e) = p @ '': '' @ error_text e"

datatype Status = StatusOpen | StatusInProgress | StatusBlocked | StatusClosed

datatype ExecutionState =
    ExecutionStatePending | ExecutionStateClaimed | ExecutionStateAssessing
  | ExecutionStateExecuting | ExecutionStateAnalyzing | ExecutionStateGates
  | ExecutionStateCommitting | ExecutionStateCompleted | ExecutionStateFailed

datatype ExecutorStatus = ExecutorStatusRunning | ExecutorStatusStopped | ExecutorStatusCrashed

datatype EventSeverity = SeverityInfo | SeverityWarning | SeverityError

datatype EventType =
    EventTypeIssueClaimed | EventTypeAssessmentStarted | EventTypeAssessmentCompleted
  | EventTypeAgentSpawned | EventTypeAgentCompleted | EventTypeResultsProcessingStarted
  | EventTypeResultsProcessingCompleted | EventTypeError | EventTypeEventCleanupCompleted

text \<open>
  The values of a \<open>map[string]interface{}\<close>. A float64 is kept as its 64 bits;
  \<open>JOther\<close> is a constant declared outside the sources, by its Go name.
\<close>

datatype jvalue = JInt int | JBool bool | JStr string | JFloat "64 word" | JOther string

record Issue =
  issue_ID :: string
  issue_Title :: string

record ExecutorInstance =
  InstanceID :: string
  Hostname :: string
  PID :: go_int
  Status :: ExecutorStatus
  StartedAt :: int
  LastHeartbeat :: int
  inst_Version :: string
  Metadata :: string

text \<open>\<open>ExecutionAttempt.Success\<close> is a \<open>*bool\<close>: \<open>None\<close> is the nil pointer.\<close>

record ExecutionAttempt =
  AttemptNumber :: go_int
  Success :: "bool option"

record AgentEvent =
  ID :: string
  Type :: EventType
  Timestamp :: int
  IssueID :: string
  ExecutorID :: string
  AgentID :: string
  Severity :: EventSeverity
  Message :: string
  Data :: "(string \<times> jvalue) list option"
  SourceLine :: go_int

record WorkFilter =
  filter_Status :: Status
  filter_Limit :: go_int

record WatchdogConfig =
  wd_IsEnabled :: bool
  MaxHistorySize :: go_int

record EventRetentionConfig =
  RetentionDays :: go_int
  RetentionCriticalDays :: go_int
  PerIssueLimitEvents :: go_int
  GlobalLimitEvents :: go_int
  CleanupIntervalHours :: go_int
  CleanupBatchSize :: go_int
  CleanupEnabled :: bool
  CleanupVacuum :: bool

text \<open>
  \<open>executor.Config\<close>. \<open>Store_set\<close> is \<open>cfg.Store != nil\<close>; a pointer field is an
  option. \<open>DeduplicationConfig\<close> only says whether the pointer is set: the
  deduplicator itself is outside the sources.
\<close>

record Config =
  Store_set :: bool
  Version :: string
  PollInterval :: duration
  HeartbeatPeriod :: duration
  CleanupInterval :: duration
  StaleThreshold :: duration
  EnableAISupervision :: bool
  EnableQualityGates :: bool
  EnableSandboxes :: bool
  KeepSandboxOnFailure :: bool
  KeepBranches :: bool
  SandboxRetentionCount :: go_int
  EnableHealthMonitoring :: bool
  HealthConfigPath :: string
  HealthStatePath :: string
  WorkingDir :: string
  SandboxRoot :: string
  ParentRepo :: string
  DefaultBranch :: string
  cfg_WatchdogConfig :: "WatchdogConfig option"
  DeduplicationConfig_set :: bool
  cfg_EventRetentionConfig :: "EventRetentionConfig option"
  InstanceCleanupAge :: duration
  InstanceCleanupKeep :: go_int

datatype chan_name =
    StopCh | DoneCh | WatchdogStopCh | WatchdogDoneCh
  | CleanupStopCh | CleanupDoneCh | EventCleanupStopCh | EventCleanupDoneCh

text \<open>
  \<open>executor.Executor\<close>. A pointer to a collaborator is the flag "is not nil"
  (\<open>supervisor_set\<close> and so on); \<open>closed\<close> lists the channels of the executor that
  have been closed (closing one twice panics in Go).
\<close>

record Executor =
  supervisor_set :: bool
  analyzer_set :: bool
  intervention_set :: bool
  sandboxMgr_set :: bool
  healthRegistry_set :: bool
  watchdogConfig :: WatchdogConfig
  config :: Config
  instanceID :: string
  hostname :: string
  pid :: go_int
  version :: string
  closed :: "chan_name list"
  pollInterval :: duration
  cleanupInterval :: duration
  staleThreshold :: duration
  instanceCleanupAge :: duration
  instanceCleanupKeep :: go_int
  enableAISupervision :: bool
  enableQualityGates :: bool
  enableSandboxes :: bool
  enableHealthMonitoring :: bool
  workingDir :: string
  running :: bool

section \<open>The environment\<close>

text \<open>
  A call takes the context it is handed: the function's own \<open>ctx\<close> (\<open>Ambient\<close>),
  \<open>context.Background()\<close>, the agent's child context \<open>agentCtx\<close>, or none.
\<close>

datatype go_context = Ambient | Background | AgentCtx | NoContext

datatype store_op =
    RegisterInstance ExecutorInstance
  | MarkInstanceStopped string
  | UpdateHeartbeat string
  | CleanupStaleInstances go_int
  | DeleteOldStoppedInstances go_int go_int
  | GetReadyWork WorkFilter
  | ClaimIssue string string
  | UpdateExecutionState string ExecutionState
  | ReleaseIssue string
  | ReleaseIssueAndReopen string string string
  | GetExecutionHistory string
  | UpdateIssue string "(string \<times> Status) list" string
  | AddComment string string string
  | StoreAgentEvent AgentEvent
  | CleanupEventsByAge go_int go_int go_int
  | CleanupEventsByIssueLimit go_int go_int
  | CleanupEventsByGlobalLimit go_int go_int
  | GetEventCounts
  | VacuumDatabase

datatype loop_name = EventLoopG | WatchdogLoopG | CleanupLoopG | EventCleanupLoopG

text \<open>
  The collaborators other than the store: the git helper, the sandbox manager, the AI
  supervisor, the prompt builder, the agent subprocess, the results processor, the
  telemetry monitor (\<open>e.monitor\<close>) and the intervention controller.
\<close>

datatype ext_op =
    CleanupOrphanedBranches
  | CleanupStaleFailedSandboxes go_int
  | CheckHealthMonitors
  | StartExecution string string
  | RecordEvent EventType
  | RecordStateTransition ExecutionState ExecutionState
  | EndExecution bool bool
  | AssessIssueState string
  | SandboxCreate string string string
  | SandboxCleanup string
  | SetAgentContext string
  | ClearAgentContext
  | AgentCancel
  | GatherContext string
  | NewPromptBuilder
  | BuildPrompt
  | SpawnAgent string string
  | AgentWait
  | NewAIDeduplicator
  | NewResultsProcessor string
  | ProcessAgentResult string

text \<open>
  What the executor does to the outside, in order: a store call with the context it
  was given and the error it returned (\<open>None\<close> is \<open>nil\<close>: the call reached the store
  and was carried out), a call to another collaborator, a goroutine started, a channel
  closed, a warning on stderr. Progress messages on stdout are not modelled.
\<close>

datatype effect =
    Store go_context store_op "go_error option"
  | External go_context ext_op "go_error option"
  | Go loop_name
  | Close chan_name
  | Warn string "go_error option"

text \<open>What the collaborators hand back, next to an error.\<close>

record Assessment =
  Strategy :: string
  Confidence :: "64 word"
  EstimatedEffort :: string
  Steps :: "string list"
  Risks :: "string list"

record Sandbox =
  sb_ID :: string
  sb_Path :: string
  sb_GitBranch :: string

record AgentResult =
  res_Success :: bool
  ExitCode :: go_int
  Duration_Milliseconds :: int
  Output :: "string list"

record ProcessingResult =
  Completed :: bool
  GatesPassed :: bool
  DiscoveredIssues :: "string list"
  CommitHash :: string
  Summary :: string

text \<open>
  The outside of the executor. The reply to the external operation started at clock
  value \<open>n\<close> is read at index \<open>n\<close>: \<open>fault\<close> is the error of its own that it
  returns (\<open>None\<close> for success), and the other fields are the data it returns
  (whatever the error). \<open>cancel_at = Some k\<close> says that the function's \<open>ctx\<close> is
  done from clock value \<open>k\<close> on, with \<open>ctx.Err() = cancel_err\<close>. \<open>seconds d\<close>
  stands for Go's \<open>int(d.Seconds())\<close> of package \<open>time\<close>, and \<open>percent c\<close> for
  \<open>fmt.Sprintf("%.0f", c*100)\<close> on a float64.
\<close>

record outside =
  o_cancel_at :: "nat option"
  o_cancel_err :: go_error
  o_fault :: "nat \<Rightarrow> go_error option"
  o_wall :: "nat \<Rightarrow> int"
  o_seconds :: "duration \<Rightarrow> go_int"
  o_percent :: "64 word \<Rightarrow> string"
  o_uuids :: "nat \<Rightarrow> string"
  o_counts :: "nat \<Rightarrow> go_int"
  o_event_counts :: "nat \<Rightarrow> go_int option"
  o_histories :: "nat \<Rightarrow> ExecutionAttempt list"
  o_ready_work :: "nat \<Rightarrow> Issue list"
  o_assessments :: "nat \<Rightarrow> Assessment"
  o_sandboxes :: "nat \<Rightarrow> Sandbox"
  o_agent_results :: "nat \<Rightarrow> AgentResult"
  o_proc_results :: "nat \<Rightarrow> ProcessingResult"

text \<open>
  The world: \<open>clock\<close> counts the external operations done so far, \<open>effects\<close> is
  what the executor has done to the outside so far, in order.
\<close>

record world =
  clock :: nat
  effects :: "effect list"
  outside :: outside

abbreviation cancel_at :: "world \<Rightarrow> nat option" where
  "cancel_at w \<equiv> o_cancel_at (outside w)"

abbreviation cancel_err :: "world \<Rightarrow> go_error" where
  "cancel_err w \<equiv> o_cancel_err (outside w)"

abbreviation fault :: "world \<Rightarrow> nat \<Rightarrow> go_error option" where
  "fault w \<equiv> o_fault (outside w)"

abbreviation wall :: "world \<Rightarrow> nat \<Rightarrow> int" where
  "wall w \<equiv> o_wall (outside w)"

abbreviation seconds :: "world \<Rightarrow> duration \<Rightarrow> go_int" where
  "seconds w \<equiv> o_seconds (outside w)"

definition ctx_err_at :: "outside \<Rightarrow> nat \<Rightarrow> go_error option" where
  "ctx_err_at out n =
     (case o_cancel_at out of
        None \<Rightarrow> None
      | Some k \<Rightarrow> if k \<le> n then Some (o_cancel_err out) else None)"

text \<open>\<open>ctx.Err()\<close>, read now.\<close>

definition ctx_err :: "world \<Rightarrow> go_error option" where
  "ctx_err w = ctx_err_at (outside w) (clock w)"

text \<open>
  The error a call started at clock value \<open>n\<close> returns. The store is reached through
  \<open>database/sql\<close>, whose calls return the context's error when the context they
  are given is already done; \<open>agentCtx\<close> is a child of \<open>ctx\<close>.
\<close>

definition reply_at :: "go_context \<Rightarrow> outside \<Rightarrow> nat \<Rightarrow> go_error option" where
  "reply_at cx out n =
     (if cx = Ambient \<or> cx = AgentCtx then
        (case ctx_err_at out n of Some e \<Rightarrow> Some e | None \<Rightarrow> o_fault out n)
      else o_fault out n)"

definition reply :: "go_context \<Rightarrow> world \<Rightarrow> go_error option" where
  "reply cx w = reply_at cx (outside w) (clock w)"

definition tick :: "world \<Rightarrow> world" where
  "tick w = w\<lparr>clock := Suc (clock w)\<rparr>"

definition emit :: "effect \<Rightarrow> world \<Rightarrow> world" where
  "emit x w = w\<lparr>effects := effects w @ [x]\<rparr>"

definition store_call :: "go_context \<Rightarrow> store_op \<Rightarrow> world \<Rightarrow> go_error option \<times> world" where
  "store_call cx op w = (reply cx w, tick (emit (Store cx op (reply cx w)) w))"

definition ext_call :: "go_context \<Rightarrow> ext_op \<Rightarrow> world \<Rightarrow> go_error option \<times> world" where
  "ext_call cx op w = (reply cx w, tick (emit (External cx op (reply cx w)) w))"

text \<open>A call into the process's own telemetry or controller: no reply, no waiting.\<close>

definition tell :: "ext_op \<Rightarrow> world \<Rightarrow> world" where
  "tell op w = emit (External NoContext op None) w"

definition warn_on :: "string \<Rightarrow> go_error option \<Rightarrow> world \<Rightarrow> world" where
  "warn_on msg r w = (case r of Some err \<Rightarrow> emit (Warn msg (Some err)) w | None \<Rightarrow> w)"

definition time_Now :: "world \<Rightarrow> int \<times> world" where
  "time_Now w = (wall w (clock w), tick w)"

section \<open>New\<close>

text \<open>
  What \<open>New\<close> reads from outside: \<open>os.Hostname()\<close>, \<open>os.Getpid()\<close>,
  \<open>uuid.New().String()\<close>, and whether each collaborator's constructor fails.
\<close>

record new_env =
  os_Hostname :: "go_error + string"
  os_Getpid :: go_int
  uuid_New :: string
  ai_NewSupervisor :: "go_error option"
  sandbox_NewManager :: "go_error option"
  watchdog_NewAnalyzer :: "go_error option"
  watchdog_NewInterventionController :: "go_error option"
  health_NewMonitorRegistry :: "go_error option"
  watchdog_DefaultWatchdogConfig :: WatchdogConfig

definition DefaultConfig :: Config where
  "DefaultConfig =
     \<lparr> Store_set = False,
       Version = ''0.1.0'',
       PollInterval = 5 * Second,
       HeartbeatPeriod = 30 * Second,
       CleanupInterval = 5 * Minute,
       StaleThreshold = 5 * Minute,
       EnableAISupervision = True,
       EnableQualityGates = True,
       EnableSandboxes = True,
       KeepSandboxOnFailure = False,
       KeepBranches = False,
       SandboxRetentionCount = 3,
       EnableHealthMonitoring = False,
       HealthConfigPath = ''.beads/health_monitors.yaml'',
       HealthStatePath = ''.beads/health_state.json'',
       WorkingDir = ''.'',
       SandboxRoot = ''.sandboxes'',
       ParentRepo = ''.'',
       DefaultBranch = ''main'',
       cfg_WatchdogConfig = None,
       DeduplicationConfig_set = False,
       cfg_EventRetentionConfig = None,
       InstanceCleanupAge = 24 * Hour,
       InstanceCleanupKeep = 10 \<rparr>"

text \<open>
  \<open>New\<close> (lines 362-583 of the executor source). The struct literal leaves
  \<open>enableHealthMonitoring\<close> at its zero value and the health section only ever sets
  it to false, so it is false in every executor \<open>New\<close> returns. The warnings \<open>New\<close>
  prints are not part of its result.
\<close>

definition New :: "new_env \<Rightarrow> Config \<Rightarrow> go_error + Executor" where
  "New env cfg =
     (if \<not> Store_set cfg then Inl (Failure ''storage is required'')
      else case os_Hostname env of
        Inl err \<Rightarrow> Inl (Wrapped ''failed to get hostname'' err)
      | Inr host \<Rightarrow>
          let workingDir0 = (if WorkingDir cfg = [] then ''.'' else WorkingDir cfg);
              cleanupInterval0 =
                (if CleanupInterval cfg = 0 then 5 * Minute else CleanupInterval cfg);
              staleThreshold0 =
                (if StaleThreshold cfg = 0 then 5 * Minute else StaleThreshold cfg);
              instanceCleanupAge0 =
                (if InstanceCleanupAge cfg = 0 then 24 * Hour else InstanceCleanupAge cfg);
              instanceCleanupKeep0 =
                (if InstanceCleanupKeep cfg = 0 then 10 else InstanceCleanupKeep cfg);
              supervisor0 = (EnableAISupervision cfg \<and> ai_NewSupervisor env = None);
              enableAI0 = (EnableAISupervision cfg \<and> ai_NewSupervisor env = None);
              sandboxMgr0 = (EnableSandboxes cfg \<and> sandbox_NewManager env = None);
              watchdogConfig0 =
                (case cfg_WatchdogConfig cfg of
                   None \<Rightarrow> watchdog_DefaultWatchdogConfig env
                 | Some wc \<Rightarrow> wc);
              analyzer0 = (enableAI0 \<and> supervisor0 \<and> watchdog_NewAnalyzer env = None);
              intervention0 = (watchdog_NewInterventionController env = None);
              healthRegistry0 =
                (EnableHealthMonitoring cfg \<and> health_NewMonitorRegistry env = None)
          in Inr \<lparr> supervisor_set = supervisor0,
                   analyzer_set = analyzer0,
                   intervention_set = intervention0,
                   sandboxMgr_set = sandboxMgr0,
                   healthRegistry_set = healthRegistry0,
                   watchdogConfig = watchdogConfig0,
                   config = cfg,
                   instanceID = uuid_New env,
                   hostname = host,
                   pid = os_Getpid env,
                   version = Version cfg,
                   closed = [],
                   pollInterval = PollInterval cfg,
                   cleanupInterval = cleanupInterval0,
                   staleThreshold = staleThreshold0,
                   instanceCleanupAge = instanceCleanupAge0,
                   instanceCleanupKeep = instanceCleanupKeep0,
                   enableAISupervision = enableAI0,
                   enableQualityGates = EnableQualityGates cfg,
                   enableSandboxes = sandboxMgr0,
                   enableHealthMonitoring = False,
                   workingDir = workingDir0,
                   running = False \<rparr>)"

section \<open>Start, Stop, IsRunning\<close>

text \<open>
  \<open>cleanupOrphanedBranches\<close> works on the git repository only (package \<open>git\<close> is
  outside the sources); its one observable outcome here is the error it returns.
\<close>

definition cleanupOrphanedBranches :: "world \<Rightarrow> go_error option \<times> world" where
  "cleanupOrphanedBranches w = ext_call Ambient CleanupOrphanedBranches w"

text \<open>
  \<open>Start\<close> (lines 586-655) returns the error, the executor as it leaves it, and
  the world.
\<close>

definition start_instance :: "Executor \<Rightarrow> int \<Rightarrow> int \<Rightarrow> ExecutorInstance" where
  "start_instance e t1 t2 =
     \<lparr> InstanceID = instanceID e, Hostname = hostname e, PID = pid e,
       Status = ExecutorStatusRunning, StartedAt = t1, LastHeartbeat = t2,
       inst_Version = version e, Metadata = ''{}'' \<rparr>"

definition Start :: "Executor \<Rightarrow> world \<Rightarrow> go_error option \<times> Executor \<times> world" where
  "Start e w =
     (if running e then (Some (Failure ''executor is already running''), e, w)
      else
        let e1 = e\<lparr>running := True\<rparr>;
            (t1, w1) = time_Now w;
            (t2, w2) = time_Now w1;
            instance = start_instance e1 t1 t2;
            (r, w3) = store_call Ambient (RegisterInstance instance) w2
        in case r of
             Some err \<Rightarrow>
               (Some (Wrapped ''failed to register executor instance'' err),
                e1\<lparr>running := False\<rparr>, w3)
           | None \<Rightarrow>
               let (c, w4) =
                     store_call Ambient (CleanupStaleInstances (seconds w3 (staleThreshold e1))) w3;
                   w5 = warn_on ''failed to cleanup stale instances on startup'' c w4;
                   w6 = (if enableSandboxes e1 \<and> \<not> KeepBranches (config e1) then
                           (let (b, w') = cleanupOrphanedBranches w5
                            in warn_on ''failed to cleanup orphaned branches'' b w')
                         else w5);
                   w7 = emit (Go EventLoopG) w6;
                   w8 = (if wd_IsEnabled (watchdogConfig e1) \<and> analyzer_set e1 \<and> intervention_set e1
                         then emit (Go WatchdogLoopG) w7 else w7);
                   w9 = emit (Go CleanupLoopG) w8;
                   w10 = emit (Go EventCleanupLoopG) w9
               in (None, e1, w10))"

definition IsRunning :: "Executor \<Rightarrow> bool" where
  "IsRunning e = running e"

text \<open>
  \<open>Stop\<close> (lines 658-723). Closing a channel that is already closed panics.
\<close>

fun close_all :: "chan_name list \<Rightarrow> Executor \<Rightarrow> world \<Rightarrow> bool \<times> Executor \<times> world" where
  "close_all [] e w = (True, e, w)"
| "close_all (c # cs) e w =
     (if c \<in> set (closed e) then (False, e, w)
      else close_all cs (e\<lparr>closed := c # closed e\<rparr>) (emit (Close c) w))"

text \<open>
  The wait loop of \<open>Stop\<close>. Each turn of the loop blocks in one \<open>select\<close> over the
  four done channels and \<open>ctx.Done()\<close>; which case a \<open>select\<close> takes is the
  scheduler's choice, given here as the list of the cases taken, in order (a closed
  channel stays ready, so a case can be taken again). When the list runs out the loop
  is still blocked in \<open>select\<close>.
\<close>

datatype stop_select =
  RecvDone | RecvWatchdogDone | RecvCleanupDone | RecvEventCleanupDone | RecvCtxDone

datatype wait_outcome = AllDone | CtxFired | StillWaiting

fun stop_wait :: "bool \<Rightarrow> bool \<Rightarrow> bool \<Rightarrow> bool \<Rightarrow> stop_select list \<Rightarrow> wait_outcome" where
  "stop_wait eventDone watchdogDone cleanupDone eventCleanupDone sel =
     (if eventDone \<and> watchdogDone \<and> cleanupDone \<and> eventCleanupDone then AllDone
      else case sel of
        [] \<Rightarrow> StillWaiting
      | RecvDone # rest \<Rightarrow> stop_wait True watchdogDone cleanupDone eventCleanupDone rest
      | RecvWatchdogDone # rest \<Rightarrow> stop_wait eventDone True cleanupDone eventCleanupDone rest
      | RecvCleanupDone # rest \<Rightarrow> stop_wait eventDone watchdogDone True eventCleanupDone rest
      | RecvEventCleanupDone # rest \<Rightarrow> stop_wait eventDone watchdogDone cleanupDone True rest
      | RecvCtxDone # rest \<Rightarrow> CtxFired)"

datatype 'a outcome = Returns 'a | Blocks | Panics string

definition Stop ::
  "Executor \<Rightarrow> stop_select list \<Rightarrow> world \<Rightarrow> go_error option outcome \<times> Executor \<times> world" where
  "Stop e sel w =
     (if \<not> running e then (Returns (Some (Failure ''executor is not running'')), e, w)
      else
        let watchdog = (wd_IsEnabled (watchdogConfig e) \<and> analyzer_set e);
            chans = [StopCh] @ (if watchdog then [WatchdogStopCh] else [])
                      @ [CleanupStopCh, EventCleanupStopCh]
        in case close_all chans e w of
             (False, e1, w1) \<Rightarrow> (Panics ''close of closed channel'', e1, w1)
           | (True, e1, w1) \<Rightarrow>
               (case stop_wait False (\<not> watchdog) False False sel of
                  StillWaiting \<Rightarrow> (Blocks, e1, w1)
                | CtxFired \<Rightarrow> (Returns (Some (cancel_err w1)), e1, w1)
                | AllDone \<Rightarrow>
                    let (m, w2) = store_call Ambient (MarkInstanceStopped (instanceID e1)) w1;
                        w3 = warn_on ''failed to mark instance as stopped'' m w2;
                        (d, w4) =
                          store_call Ambient
                            (DeleteOldStoppedInstances (seconds w3 (instanceCleanupAge e1))
                               (instanceCleanupKeep e1)) w3;
                        w5 = warn_on ''failed to cleanup old executor instances'' d w4
                    in (Returns None, e1\<lparr>running := False\<rparr>, w5)))"

text \<open>
  The done-signals \<open>Stop\<close> waits for, and the ones a run of its wait loop has
  received before \<open>ctx.Done()\<close> was taken.
\<close>

definition awaited :: "Executor \<Rightarrow> stop_select set" where
  "awaited e =
     {RecvDone, RecvCleanupDone, RecvEventCleanupDone} \<union>
     (if wd_IsEnabled (watchdogConfig e) \<and> analyzer_set e then {RecvWatchdogDone} else {})"

definition observed :: "stop_select list \<Rightarrow> stop_select set" where
  "observed sel = set (takeWhile (\<lambda>s. s \<noteq> RecvCtxDone) sel)"

fun store_call_of :: "effect \<Rightarrow> store_op list" where
  "store_call_of (Store cx op r) = [op]"
| "store_call_of x = []"

definition store_calls :: "effect list \<Rightarrow> store_op list" where
  "store_calls es = concat (map store_call_of es)"

text \<open>The store calls of a trace, each with its context and what it returned.\<close>

fun is_store :: "effect \<Rightarrow> bool" where
  "is_store (Store cx op r) = True"
| "is_store x = False"

definition store_effects :: "effect list \<Rightarrow> effect list" where
  "store_effects es = filter is_store es"

text \<open>
  The work of one tick of \<open>cleanupLoop\<close> (the goroutine of lines 1417-1449): the
  second place that calls \<open>DeleteOldStoppedInstances\<close>.
\<close>

definition cleanupLoop_tick :: "Executor \<Rightarrow> world \<Rightarrow> go_error option \<times> world" where
  "cleanupLoop_tick e w =
     (let (c, w1) = store_call Ambient (CleanupStaleInstances (seconds w (staleThreshold e))) w
      in case c of
           Some err \<Rightarrow> (Some err, w1)
         | None \<Rightarrow>
             let w2 = (if sandboxMgr_set e \<and> 0 <s SandboxRetentionCount (config e) then
                         (let (s, w') =
                                ext_call Ambient
                                  (CleanupStaleFailedSandboxes (SandboxRetentionCount (config e))) w1
                          in warn_on ''failed to cleanup stale sandboxes'' s w')
                       else w1);
                 (d, w3) =
                   store_call Ambient
                     (DeleteOldStoppedInstances (seconds w2 (instanceCleanupAge e))
                        (instanceCleanupKeep e)) w2;
                 w4 = warn_on ''failed to cleanup old executor instances'' d w3
             in (None, w4))"

text \<open>The keep-counts of the \<open>DeleteOldStoppedInstances\<close> calls in a trace.\<close>

fun keep_of :: "effect \<Rightarrow> go_int list" where
  "keep_of (Store cx (DeleteOldStoppedInstances secs k) r) = [k]"
| "keep_of x = []"

definition keeps_of :: "effect list \<Rightarrow> go_int list" where
  "keeps_of es = concat (map keep_of es)"

section \<open>Text and numbers\<close>

abbreviation percent :: "world \<Rightarrow> 64 word \<Rightarrow> string" where
  "percent w \<equiv> o_percent (outside w)"

abbreviation uuids :: "world \<Rightarrow> nat \<Rightarrow> string" where
  "uuids w \<equiv> o_uuids (outside w)"

abbreviation counts :: "world \<Rightarrow> nat \<Rightarrow> go_int" where
  "counts w \<equiv> o_counts (outside w)"

abbreviation event_counts :: "world \<Rightarrow> nat \<Rightarrow> go_int option" where
  "event_counts w \<equiv> o_event_counts (outside w)"

abbreviation histories :: "world \<Rightarrow> nat \<Rightarrow> ExecutionAttempt list" where
  "histories w \<equiv> o_histories (outside w)"

abbreviation ready_work :: "world \<Rightarrow> nat \<Rightarrow> Issue list" where
  "ready_work w \<equiv> o_ready_work (outside w)"

abbreviation assessments :: "world \<Rightarrow> nat \<Rightarrow> Assessment" where
  "assessments w \<equiv> o_assessments (outside w)"

abbreviation sandboxes :: "world \<Rightarrow> nat \<Rightarrow> Sandbox" where
  "sandboxes w \<equiv> o_sandboxes (outside w)"

abbreviation agent_results :: "world \<Rightarrow> nat \<Rightarrow> AgentResult" where
  "agent_results w \<equiv> o_agent_results (outside w)"

abbreviation proc_results :: "world \<Rightarrow> nat \<Rightarrow> ProcessingResult" where
  "proc_results w \<equiv> o_proc_results (outside w)"

definition new_uuid :: "world \<Rightarrow> string \<times> world" where
  "new_uuid w = (uuids w (clock w), tick w)"

definition newline :: string where
  "newline = [CHR 0x0A]"

text \<open>\<open>%d\<close> of a number.\<close>

fun nat_to_string :: "nat \<Rightarrow> string" where
  "nat_to_string n =
     (if n < 10 then [''0123456789'' ! n]
      else nat_to_string (n div 10) @ [''0123456789'' ! (n mod 10)])"

definition itoa :: "int \<Rightarrow> string" where
  "itoa i = (if i < 0 then ''-'' @ nat_to_string (nat (- i)) else nat_to_string (nat i))"

text \<open>Go's integer division rounds towards zero.\<close>

definition go_quot :: "int \<Rightarrow> int \<Rightarrow> int" where
  "go_quot a b = (if (a < 0) = (b < 0) then \<bar>a\<bar> div \<bar>b\<bar> else - (\<bar>a\<bar> div \<bar>b\<bar>))"

text \<open>\<open>time.Since(start).Milliseconds()\<close>: reads the clock.\<close>

definition since_Milliseconds :: "int \<Rightarrow> world \<Rightarrow> int \<times> world" where
  "since_Milliseconds start w = (go_quot (wall w (clock w) - start) 1000000, tick w)"

text \<open>
  \<open>int(float64(g) * 0.95)\<close>, exactly. A float64 has 53 significant bits, and
  conversion and multiplication round to the nearest such value, ties to even:
  \<open>round53\<close> does that to a natural number. The constant 0.95 is the float64
  \<open>8556839292003942 / 2^53\<close>, so the product of \<open>float64(g)\<close> = \<open>m\<close> and 0.95 is
  \<open>m * 8556839292003942 / 2^53\<close> rounded, and \<open>int\<close> cuts the fraction off.
\<close>

fun bit_length :: "nat \<Rightarrow> nat" where
  "bit_length n = (if n = 0 then 0 else Suc (bit_length (n div 2)))"

definition round53 :: "nat \<Rightarrow> nat" where
  "round53 n =
     (if n < 2 ^ 53 then n
      else let s = bit_length n - 53; q = n div 2 ^ s; r = n mod 2 ^ s; h = 2 ^ (s - 1)
           in (if h < r \<or> (r = h \<and> odd q) then q + 1 else q) * 2 ^ s)"

definition float64_0_95 :: nat where
  "float64_0_95 = 8556839292003942"

definition triggerThreshold :: "go_int \<Rightarrow> go_int" where
  "triggerThreshold g =
     (let m = round53 (nat \<bar>sint g\<bar>);
          p = round53 (m * float64_0_95);
          t = int (p div 2 ^ 53)
      in word_of_int (if sint g < 0 then - t else t))"

section \<open>logEvent and releaseIssueWithError\<close>

text \<open>
  \<open>logEvent\<close> (lines 1177-1200): nothing is logged once the context is done.
\<close>

definition logEvent ::
  "Executor \<Rightarrow> EventType \<Rightarrow> EventSeverity \<Rightarrow> string \<Rightarrow> string \<Rightarrow> (string \<times> jvalue) list \<Rightarrow>
     world \<Rightarrow> world" where
  "logEvent e eventType severity issueID message data w =
     (if ctx_err w \<noteq> None then w
      else
        let (u, w1) = new_uuid w;
            (t, w2) = time_Now w1;
            event = \<lparr> ID = u, Type = eventType, Timestamp = t, IssueID = issueID,
                      ExecutorID = instanceID e, AgentID = [], Severity = severity,
                      Message = message, Data = Some data, SourceLine = 0 \<rparr>;
            (r, w3) = store_call Ambient (StoreAgentEvent event) w2
        in warn_on ''failed to store agent event'' r w3)"

text \<open>
  The loop of \<open>releaseIssueWithError\<close> walks the history from its last attempt
  back: \<open>count_failures\<close> takes the attempts newest first.
\<close>

fun count_failures :: "ExecutionAttempt list \<Rightarrow> nat" where
  "count_failures [] = 0"
| "count_failures (attempt # older) =
     (case Success attempt of
        None \<Rightarrow> count_failures older
      | Some ok \<Rightarrow> if \<not> ok then Suc (count_failures older) else 0)"

definition consecutiveFailures :: "ExecutionAttempt list \<Rightarrow> nat" where
  "consecutiveFailures history = count_failures (rev history)"

definition maxConsecutiveFailures :: nat where
  "maxConsecutiveFailures = 3"

definition blockReason :: "nat \<Rightarrow> string \<Rightarrow> string" where
  "blockReason n errMsg =
     ''Blocked after '' @ nat_to_string n @ '' consecutive execution failures. Last error: ''
       @ errMsg"

text \<open>
  \<open>releaseIssueWithError\<close> (lines 1204-1266), with the context it is called with.
  \<open>history\<close> is the slice \<open>GetExecutionHistory\<close> returned, whether or not it also
  returned an error: the source logs the error and goes on with the slice.
\<close>

definition releaseIssueWithError ::
  "go_context \<Rightarrow> Executor \<Rightarrow> string \<Rightarrow> string \<Rightarrow> world \<Rightarrow> world" where
  "releaseIssueWithError cx e issueID errMsg w =
     (let history = histories w (clock w);
          (h, w1) = store_call cx (GetExecutionHistory issueID) w;
          w2 = warn_on ''failed to get execution history'' h w1;
          n = consecutiveFailures history
      in if maxConsecutiveFailures \<le> n then
           let w3 = emit (Warn ''consecutive failures, marking as blocked'' None) w2;
               (r, w4) = store_call cx (ReleaseIssue issueID) w3;
               w5 = warn_on ''failed to release issue'' r w4;
               (u, w6) =
                 store_call cx (UpdateIssue issueID [(''status'', StatusBlocked)] ''executor'') w5;
               w7 = warn_on ''failed to mark issue as blocked'' u w6;
               (c, w8) = store_call cx (AddComment issueID ''executor'' (blockReason n errMsg)) w7
           in warn_on ''failed to add comment'' c w8
         else
           let w3 = (if 0 < n
                     then emit (Warn ''consecutive failures, reopening for retry'' None) w2
                     else w2);
               (r, w4) = store_call cx (ReleaseIssueAndReopen issueID (instanceID e) errMsg) w3
           in warn_on ''failed to release and reopen issue'' r w4)"

section \<open>The event-retention janitor\<close>

definition cleanup_data ::
  "go_int \<Rightarrow> go_int \<Rightarrow> go_int \<Rightarrow> go_int \<Rightarrow> int \<Rightarrow> bool \<Rightarrow> go_int \<Rightarrow> bool \<Rightarrow> string \<Rightarrow>
     (string \<times> jvalue) list" where
  "cleanup_data totalDeleted timeBasedDeleted perIssueDeleted globalLimitDeleted
       processingTimeMs vacuumRan eventsRemaining success errorMsg =
     [(''events_deleted'', JInt (sint totalDeleted)),
      (''time_based_deleted'', JInt (sint timeBasedDeleted)),
      (''per_issue_deleted'', JInt (sint perIssueDeleted)),
      (''global_limit_deleted'', JInt (sint globalLimitDeleted)),
      (''processing_time_ms'', JInt processingTimeMs),
      (''vacuum_ran'', JBool vacuumRan),
      (''events_remaining'', JInt (sint eventsRemaining)),
      (''success'', JBool success)]
     @ (if errorMsg \<noteq> [] then [(''error'', JStr errorMsg)] else [])"

definition cleanup_event ::
  "Executor \<Rightarrow> string \<Rightarrow> int \<Rightarrow> go_int \<Rightarrow> int \<Rightarrow> bool \<Rightarrow> string \<Rightarrow> (string \<times> jvalue) list \<Rightarrow>
     AgentEvent" where
  "cleanup_event e u t totalDeleted processingTimeMs success errorMsg data =
     \<lparr> ID = u, Type = EventTypeEventCleanupCompleted, Timestamp = t, IssueID = ''SYSTEM'',
       ExecutorID = instanceID e, AgentID = [],
       Severity = (if success then SeverityInfo else SeverityError),
       Message =
         (if success
          then ''Event cleanup completed: deleted '' @ itoa (sint totalDeleted) @ '' events in ''
                 @ itoa processingTimeMs @ ''ms''
          else ''Event cleanup failed: '' @ errorMsg),
       Data = Some data, SourceLine = 0 \<rparr>"

text \<open>\<open>logCleanupEvent\<close> (lines 1607-1654).\<close>

definition logCleanupEvent ::
  "Executor \<Rightarrow> go_int \<Rightarrow> go_int \<Rightarrow> go_int \<Rightarrow> go_int \<Rightarrow> int \<Rightarrow> bool \<Rightarrow> go_int \<Rightarrow> bool \<Rightarrow> string \<Rightarrow>
     world \<Rightarrow> world" where
  "logCleanupEvent e totalDeleted timeBasedDeleted perIssueDeleted globalLimitDeleted
       processingTimeMs vacuumRan eventsRemaining success errorMsg w =
     (if ctx_err w \<noteq> None then w
      else
        let data = cleanup_data totalDeleted timeBasedDeleted perIssueDeleted globalLimitDeleted
                     processingTimeMs vacuumRan eventsRemaining success errorMsg;
            (u, w1) = new_uuid w;
            (t, w2) = time_Now w1;
            event = cleanup_event e u t totalDeleted processingTimeMs success errorMsg data;
            (r, w3) = store_call Ambient (StoreAgentEvent event) w2
        in warn_on ''failed to store cleanup event'' r w3)"

text \<open>
  \<open>runEventCleanup\<close> (lines 1527-1604): one cycle. The count a cleanup call
  returns is read with its reply.
\<close>

definition runEventCleanup ::
  "Executor \<Rightarrow> EventRetentionConfig \<Rightarrow> world \<Rightarrow> go_error option \<times> world" where
  "runEventCleanup e cfg w =
     (let (startTime, w0) = time_Now w;
          timeBasedDeleted = counts w0 (clock w0);
          (r1, w1) =
            store_call Ambient
              (CleanupEventsByAge (RetentionDays cfg) (RetentionCriticalDays cfg)
                 (CleanupBatchSize cfg)) w0
      in case r1 of
           Some err \<Rightarrow>
             let cleanupErr = Wrapped ''time-based cleanup failed'' err;
                 (ms, w2) = since_Milliseconds startTime w1
             in (Some cleanupErr,
                 logCleanupEvent e 0 0 0 0 ms False 0 False (error_text cleanupErr) w2)
         | None \<Rightarrow>
             let perIssueDeleted = counts w1 (clock w1);
                 (r2, w2) =
                   store_call Ambient
                     (CleanupEventsByIssueLimit (PerIssueLimitEvents cfg) (CleanupBatchSize cfg)) w1
             in case r2 of
                  Some err \<Rightarrow>
                    let cleanupErr = Wrapped ''per-issue limit cleanup failed'' err;
                        (ms, w3) = since_Milliseconds startTime w2
                    in (Some cleanupErr,
                        logCleanupEvent e timeBasedDeleted timeBasedDeleted 0 0 ms False 0 False
                          (error_text cleanupErr) w3)
                | None \<Rightarrow>
                    let globalLimitDeleted = counts w2 (clock w2);
                        (r3, w3) =
                          store_call Ambient
                            (CleanupEventsByGlobalLimit
                               (triggerThreshold (GlobalLimitEvents cfg)) (CleanupBatchSize cfg)) w2
                    in case r3 of
                         Some err \<Rightarrow>
                           let cleanupErr = Wrapped ''global limit cleanup failed'' err;
                               (ms, w4) = since_Milliseconds startTime w3
                           in (Some cleanupErr,
                               logCleanupEvent e (timeBasedDeleted + perIssueDeleted)
                                 timeBasedDeleted perIssueDeleted 0 ms False 0 False
                                 (error_text cleanupErr) w4)
                       | None \<Rightarrow>
                           let totalDeleted =
                                 timeBasedDeleted + perIssueDeleted + globalLimitDeleted;
                               (vacuumRan, w5) =
                                 (if CleanupVacuum cfg \<and> 0 <s totalDeleted then
                                    (let (v, w4) = store_call Ambient VacuumDatabase w3
                                     in (v = None, warn_on ''VACUUM failed'' v w4))
                                  else (False, w3));
                               remaining = event_counts w5 (clock w5);
                               (c, w6) = store_call Ambient GetEventCounts w5;
                               w7 = warn_on ''failed to get event counts'' c w6;
                               eventsRemaining =
                                 (case c of
                                    Some err \<Rightarrow> 0
                                  | None \<Rightarrow> (case remaining of None \<Rightarrow> 0 | Some k \<Rightarrow> k));
                               (ms, w8) = since_Milliseconds startTime w7
                           in (None,
                               logCleanupEvent e totalDeleted timeBasedDeleted perIssueDeleted
                                 globalLimitDeleted ms vacuumRan eventsRemaining True [] w8))"

section \<open>VCStorage.StoreAgentEvent\<close>

text \<open>
  The table \<open>vc_agent_events\<close> as \<open>vcExtensionSchema\<close> declares it: \<open>issue_id\<close>,
  \<open>executor_id\<close> and \<open>agent_id\<close> may be NULL, and \<open>issue_id\<close> references
  \<open>issues(id)\<close>. The database holds the ids of the rows of \<open>issues\<close>, whether the
  connection enforces foreign keys, and the rows of \<open>vc_agent_events\<close>.
\<close>

record event_row =
  row_timestamp :: int
  row_issue_id :: "string option"
  row_executor_id :: "string option"
  row_agent_id :: "string option"
  row_type :: EventType
  row_severity :: EventSeverity
  row_message :: string
  row_data :: string
  row_source_line :: go_int

record database =
  issues :: "string list"
  foreign_keys :: bool
  vc_agent_events :: "event_row list"

definition foreign_key_failed :: go_error where
  "foreign_key_failed = Failure ''FOREIGN KEY constraint failed''"

text \<open>
  The INSERT through \<open>ExecContext\<close>: refused when the context is done, when the
  driver fails for a reason of its own (\<open>driver_fault\<close>), or when the row's
  \<open>issue_id\<close> is not NULL and names no row of \<open>issues\<close> while foreign keys are
  enforced (a NULL child key satisfies a foreign key in SQL).
\<close>

definition insert_agent_event ::
  "bool \<Rightarrow> go_error option \<Rightarrow> database \<Rightarrow> event_row \<Rightarrow> go_error + database" where
  "insert_agent_event ctx_done driver_fault db row =
     (if ctx_done then Inl Canceled
      else case driver_fault of
        Some err \<Rightarrow> Inl err
      | None \<Rightarrow>
          (case row_issue_id row of
             None \<Rightarrow> Inr (db\<lparr>vc_agent_events := vc_agent_events db @ [row]\<rparr>)
           | Some i \<Rightarrow>
               if foreign_keys db \<and> i \<notin> set (issues db) then Inl foreign_key_failed
               else Inr (db\<lparr>vc_agent_events := vc_agent_events db @ [row]\<rparr>)))"

definition null_if_empty :: "string \<Rightarrow> string option" where
  "null_if_empty s = (if s = [] then None else Some s)"

text \<open>
  \<open>VCStorage.StoreAgentEvent\<close> (lines 270-313 of the storage source). \<open>marshal\<close> is
  \<open>json.Marshal\<close>; a nil \<open>Data\<close> is stored as the empty string.
\<close>

definition event_row_of :: "AgentEvent \<Rightarrow> string \<Rightarrow> event_row" where
  "event_row_of event dataJSON =
     \<lparr> row_timestamp = Timestamp event,
       row_issue_id = null_if_empty (IssueID event),
       row_executor_id = null_if_empty (ExecutorID event),
       row_agent_id = null_if_empty (AgentID event),
       row_type = Type event,
       row_severity = Severity event,
       row_message = Message event,
       row_data = dataJSON,
       row_source_line = SourceLine event \<rparr>"

definition VCStorage_StoreAgentEvent ::
  "((string \<times> jvalue) list \<Rightarrow> go_error + string) \<Rightarrow> bool \<Rightarrow> go_error option \<Rightarrow> database \<Rightarrow>
     AgentEvent \<Rightarrow> go_error option \<times> database" where
  "VCStorage_StoreAgentEvent marshal ctx_done driver_fault db event =
     (case (case Data event of None \<Rightarrow> Inr [] | Some d \<Rightarrow> marshal d) of
        Inl err \<Rightarrow> (Some (Wrapped ''failed to marshal event data'' err), db)
      | Inr dataJSON \<Rightarrow>
          (case insert_agent_event ctx_done driver_fault db (event_row_of event dataJSON) of
             Inl err \<Rightarrow> (Some (Wrapped ''failed to store agent event'' err), db)
           | Inr db' \<Rightarrow> (None, db')))"

section \<open>executeIssue\<close>

text \<open>
  The comment that \<open>executeIssue\<close> writes for an assessment (lines 859-869);
  \<open>pct\<close> renders the confidence.
\<close>

fun numbered_steps :: "nat \<Rightarrow> string list \<Rightarrow> string" where
  "numbered_steps i [] = []"
| "numbered_steps i (step # rest) =
     nat_to_string (i + 1) @ ''. '' @ step @ newline @ numbered_steps (i + 1) rest"

definition assessmentComment :: "(64 word \<Rightarrow> string) \<Rightarrow> Assessment \<Rightarrow> string" where
  "assessmentComment pct a =
     ''**AI Assessment**'' @ newline @ newline @ ''Strategy: '' @ Strategy a @ newline @ newline
     @ ''Confidence: '' @ pct (Confidence a) @ ''%'' @ newline @ newline
     @ ''Estimated Effort: '' @ EstimatedEffort a @ newline @ newline @ ''Steps:'' @ newline
     @ numbered_steps 0 (Steps a)
     @ (if Risks a \<noteq> [] then
          newline @ ''Risks:'' @ newline @ concat (map (\<lambda>risk. ''- '' @ risk @ newline) (Risks a))
        else [])"

text \<open>
  \<open>executeIssue\<close> either returns at a point or goes on: a part of it yields
  \<open>Return r\<close> when the function returns \<open>r\<close> there.
\<close>

datatype 'a step = Return "go_error option" | Continue 'a

text \<open>
  The cleanup on a cancelled context (lines 818-823, 840-846, 939-945, 951-956):
  release with \<open>context.Background()\<close>, end the telemetry, return \<open>ctx.Err()\<close>.
\<close>

definition cancel_release ::
  "Executor \<Rightarrow> string \<Rightarrow> string \<Rightarrow> go_error \<Rightarrow> world \<Rightarrow> unit step \<times> world" where
  "cancel_release e issueID errMsg cerr w =
     (Return (Some cerr),
      tell (EndExecution False False) (releaseIssueWithError Background e issueID errMsg w))"

text \<open>
  The cleanup after a failed step from the context gathering on (lines 979-989,
  993-1003, 1006-1016, 1041-1054, 1066-1078, 1127-1139, 1142-1154): log an error
  event, release with \<open>ctx\<close>, end the telemetry, return the wrapped error.
\<close>

definition fail_release ::
  "Executor \<Rightarrow> string \<Rightarrow> EventType \<Rightarrow> string \<Rightarrow> (string \<times> jvalue) list \<Rightarrow> string \<Rightarrow> string \<Rightarrow>
     go_error \<Rightarrow> world \<Rightarrow> go_error option \<times> world" where
  "fail_release e issueID eventType logPrefix extra relPrefix wrap err w =
     (Some (Wrapped wrap err),
      tell (EndExecution False False)
        (releaseIssueWithError Ambient e issueID (relPrefix @ error_text err)
           (logEvent e eventType SeverityError issueID (logPrefix @ error_text err)
              ([(''success'', JBool False)] @ extra @ [(''error'', JStr (error_text err))]) w)))"

text \<open>Lines 801-827: telemetry, the claimed event, the transition to assessing.\<close>

definition enterAssessing :: "Executor \<Rightarrow> Issue \<Rightarrow> world \<Rightarrow> unit step \<times> world" where
  "enterAssessing e issue w =
     (let w1 = tell (StartExecution (issue_ID issue) (instanceID e)) w;
          w2 = logEvent e EventTypeIssueClaimed SeverityInfo (issue_ID issue)
                 (''Issue '' @ issue_ID issue @ '' claimed by executor '' @ instanceID e)
                 [(''issue_title'', JStr (issue_Title issue))] w1;
          w3 = tell (RecordEvent EventTypeIssueClaimed) w2;
          (r, w4) =
            store_call Ambient (UpdateExecutionState (issue_ID issue) ExecutionStateAssessing) w3
      in case r of
           None \<Rightarrow>
             (Continue (),
              tell (RecordStateTransition ExecutionStateClaimed ExecutionStateAssessing) w4)
         | Some err \<Rightarrow>
             (case ctx_err w4 of
                Some cerr \<Rightarrow>
                  cancel_release e (issue_ID issue)
                    (''Execution canceled during state transition: '' @ error_text cerr) cerr w4
              | None \<Rightarrow>
                  (Continue (),
                   tell (RecordStateTransition ExecutionStateClaimed ExecutionStateAssessing)
                     (emit (Warn ''failed to update execution state'' (Some err)) w4))))"

text \<open>Lines 829-889: the assessment, when AI supervision is on.\<close>

definition assessIssue :: "Executor \<Rightarrow> Issue \<Rightarrow> world \<Rightarrow> unit step \<times> world" where
  "assessIssue e issue w =
     (if enableAISupervision e \<and> supervisor_set e then
        let w1 = logEvent e EventTypeAssessmentStarted SeverityInfo (issue_ID issue)
                   (''Starting AI assessment for issue '' @ issue_ID issue) [] w;
            assessment = assessments w1 (clock w1);
            (r, w2) = ext_call Ambient (AssessIssueState (issue_ID issue)) w1
        in case r of
             Some err \<Rightarrow>
               (case ctx_err w2 of
                  Some cerr \<Rightarrow>
                    cancel_release e (issue_ID issue) ''Execution canceled during assessment'' cerr
                      (emit (Warn ''Assessment canceled due to executor shutdown'' None) w2)
                | None \<Rightarrow>
                    (Continue (),
                     logEvent e EventTypeAssessmentCompleted SeverityError (issue_ID issue)
                       (''AI assessment failed: '' @ error_text err)
                       [(''success'', JBool False), (''error'', JStr (error_text err))]
                       (emit (Warn ''AI assessment failed'' (Some err)) w2)))
           | None \<Rightarrow>
               let (c, w3) =
                     store_call Ambient
                       (AddComment (issue_ID issue) ''ai-supervisor''
                          (assessmentComment (percent w2) assessment)) w2;
                   w4 = warn_on ''failed to add assessment comment'' c w3
               in (Continue (),
                   logEvent e EventTypeAssessmentCompleted SeverityInfo (issue_ID issue)
                     (''AI assessment completed for issue '' @ issue_ID issue)
                     [(''success'', JBool True),
                      (''strategy'', JStr (Strategy assessment)),
                      (''confidence'', JFloat (Confidence assessment)),
                      (''estimated_effort'', JStr (EstimatedEffort assessment)),
                      (''steps_count'', JInt (int (length (Steps assessment)))),
                      (''risks_count'', JInt (int (length (Risks assessment))))] w4)
      else (Continue (), w))"

text \<open>
  Lines 891-935: the sandbox. The result is the sandbox whose cleanup has been
  deferred (if one was created) and the working directory of the agent.
\<close>

definition createSandbox :: "Executor \<Rightarrow> Issue \<Rightarrow> world \<Rightarrow> Sandbox option \<times> string \<times> world" where
  "createSandbox e issue w =
     (if enableSandboxes e \<and> sandboxMgr_set e then
        let parentRepo = (if ParentRepo (config e) \<noteq> [] then ParentRepo (config e) else ''.'');
            baseBranch =
              (if DefaultBranch (config e) \<noteq> [] then DefaultBranch (config e) else ''main'');
            sb = sandboxes w (clock w);
            (r, w1) = ext_call Ambient (SandboxCreate (issue_ID issue) parentRepo baseBranch) w
        in case r of
             Some err \<Rightarrow> (None, workingDir e, emit (Warn ''failed to create sandbox'' (Some err)) w1)
           | None \<Rightarrow> (Some sb, sb_Path sb, w1)
      else (None, workingDir e, w))"

text \<open>Lines 937-961: the check before the spawn and the transition to executing.\<close>

definition enterExecuting :: "Executor \<Rightarrow> Issue \<Rightarrow> world \<Rightarrow> unit step \<times> world" where
  "enterExecuting e issue w =
     (case ctx_err w of
        Some cerr \<Rightarrow>
          cancel_release e (issue_ID issue) ''Execution canceled before spawning agent'' cerr
            (emit (Warn ''Execution canceled before spawning agent'' None) w)
      | None \<Rightarrow>
          let (r, w1) =
                store_call Ambient (UpdateExecutionState (issue_ID issue) ExecutionStateExecuting) w
          in case r of
               None \<Rightarrow>
                 (Continue (),
                  tell (RecordStateTransition ExecutionStateAssessing ExecutionStateExecuting) w1)
             | Some err \<Rightarrow>
                 (case ctx_err w1 of
                    Some cerr \<Rightarrow>
                      cancel_release e (issue_ID issue)
                        (''Execution canceled during state transition: '' @ error_text cerr) cerr w1
                  | None \<Rightarrow>
                      (Continue (),
                       tell (RecordStateTransition ExecutionStateAssessing ExecutionStateExecuting)
                         (emit (Warn ''failed to update execution state'' (Some err)) w1))))"

text \<open>
  Lines 1090-1174: the results of an agent that has finished.
\<close>

definition processResults ::
  "Executor \<Rightarrow> Issue \<Rightarrow> string \<Rightarrow> AgentResult \<Rightarrow> world \<Rightarrow> go_error option \<times> world" where
  "processResults e issue dir result w =
     (let w1 = logEvent e EventTypeResultsProcessingStarted SeverityInfo (issue_ID issue)
                 (''Starting results processing for issue '' @ issue_ID issue) [] w;
          w2 = (if supervisor_set e then
                  (let (d, w') = ext_call NoContext NewAIDeduplicator w1
                   in case d of
                        Some err \<Rightarrow>
                          logEvent e EventTypeError SeverityWarning (issue_ID issue)
                            (''Failed to create deduplicator: '' @ error_text err
                               @ '' (continuing without deduplication)'')
                            [(''error'', JStr (error_text err))] w'
                      | None \<Rightarrow> w')
                else w1);
          (p, w3) = ext_call NoContext (NewResultsProcessor dir) w2
      in case p of
           Some err \<Rightarrow>
             fail_release e (issue_ID issue) EventTypeResultsProcessingCompleted
               ''Results processor creation failed: '' []
               ''Failed to create results processor: '' ''failed to create results processor''
               err w3
         | None \<Rightarrow>
             let procResult = proc_results w3 (clock w3);
                 (q, w4) = ext_call Ambient (ProcessAgentResult (issue_ID issue)) w3
             in case q of
                  Some err \<Rightarrow>
                    fail_release e (issue_ID issue) EventTypeResultsProcessingCompleted
                      ''Results processing failed: '' []
                      ''Failed to process results: '' ''failed to process agent result'' err w4
                | None \<Rightarrow>
                    let w5 = logEvent e EventTypeResultsProcessingCompleted SeverityInfo
                               (issue_ID issue)
                               (''Results processing completed for issue '' @ issue_ID issue)
                               [(''success'', JBool True),
                                (''completed'', JBool (Completed procResult)),
                                (''gates_passed'', JBool (GatesPassed procResult)),
                                (''discovered_issues'',
                                   JInt (int (length (DiscoveredIssues procResult)))),
                                (''commit_hash'', JStr (CommitHash procResult))] w4
                    in (None,
                        tell (EndExecution (Completed procResult \<and> res_Success result)
                                (GatesPassed procResult)) w5))"

text \<open>
  Lines 963-1088: the agent, from the registration of its cancel function to the
  end of its run. The two deferred calls registered at lines 965-974 are run by
  \<open>executeIssue\<close> below.
\<close>

definition runAgent ::
  "Executor \<Rightarrow> Issue \<Rightarrow> string \<Rightarrow> world \<Rightarrow> go_error option \<times> world" where
  "runAgent e issue dir w =
     (let w1 = (if intervention_set e then tell (SetAgentContext (issue_ID issue)) w else w);
          (g, w2) = ext_call Ambient (GatherContext (issue_ID issue)) w1
      in case g of
           Some err \<Rightarrow>
             fail_release e (issue_ID issue) EventTypeAgentSpawned ''Failed to gather context: '' []
               ''Failed to gather context: '' ''failed to gather context'' err w2
         | None \<Rightarrow>
             let (b, w3) = ext_call NoContext NewPromptBuilder w2
             in case b of
                  Some err \<Rightarrow>
                    fail_release e (issue_ID issue) EventTypeAgentSpawned
                      ''Failed to create prompt builder: '' []
                      ''Failed to create prompt builder: '' ''failed to create prompt builder''
                      err w3
                | None \<Rightarrow>
                    let (p, w4) = ext_call NoContext BuildPrompt w3
                    in case p of
                         Some err \<Rightarrow>
                           fail_release e (issue_ID issue) EventTypeAgentSpawned
                             ''Failed to build prompt: '' []
                             ''Failed to build prompt: '' ''failed to build prompt'' err w4
                       | None \<Rightarrow>
                           let (agentID, w5) = new_uuid w4;
                               (s, w6) = ext_call AgentCtx (SpawnAgent dir agentID) w5
                           in case s of
                                Some err \<Rightarrow>
                                  fail_release e (issue_ID issue) EventTypeAgentSpawned
                                    ''Failed to spawn agent: ''
                                    [(''agent_type'', JOther ''AgentTypeAmp'')]
                                    ''Failed to spawn agent: '' ''failed to spawn agent'' err w6
                              | None \<Rightarrow>
                                  let w7 = logEvent e EventTypeAgentSpawned SeverityInfo
                                             (issue_ID issue)
                                             (''Agent spawned for issue '' @ issue_ID issue)
                                             [(''success'', JBool True),
                                              (''agent_type'', JOther ''AgentTypeAmp'')] w6;
                                      result = agent_results w7 (clock w7);
                                      (a, w8) = ext_call AgentCtx AgentWait w7
                                  in case a of
                                       Some err \<Rightarrow>
                                         fail_release e (issue_ID issue) EventTypeAgentCompleted
                                           ''Agent execution failed: '' []
                                           ''Agent execution failed: '' ''agent execution failed''
                                           err w8
                                     | None \<Rightarrow>
                                         processResults e issue dir result
                                           (logEvent e EventTypeAgentCompleted SeverityInfo
                                              (issue_ID issue)
                                              (''Agent completed execution for issue ''
                                                 @ issue_ID issue)
                                              [(''success'', JBool True),
                                               (''exit_code'', JInt (sint (ExitCode result))),
                                               (''duration_ms'',
                                                  JInt (Duration_Milliseconds result)),
                                               (''output_lines'',
                                                  JInt (int (length (Output result))))] w8))"

text \<open>
  \<open>executeIssue\<close> (lines 800-1174). Deferred calls run when the function returns,
  the last registered first: clearing the agent context, cancelling the agent
  context, then the cleanup of the sandbox (with \<open>ctx\<close>).
\<close>

definition executeIssue :: "Executor \<Rightarrow> Issue \<Rightarrow> world \<Rightarrow> go_error option \<times> world" where
  "executeIssue e issue w =
     (case enterAssessing e issue w of
        (Return r, w1) \<Rightarrow> (r, w1)
      | (Continue u, w1) \<Rightarrow>
          (case assessIssue e issue w1 of
             (Return r, w2) \<Rightarrow> (r, w2)
           | (Continue u, w2) \<Rightarrow>
               let (sb, dir, w3) = createSandbox e issue w2;
                   (r, w4) =
                     (case enterExecuting e issue w3 of
                        (Return r, w') \<Rightarrow> (r, w')
                      | (Continue u, w') \<Rightarrow>
                          let (r, w'') = runAgent e issue dir w';
                              w''' = (if intervention_set e then tell ClearAgentContext w''
                                      else w'')
                          in (r, tell AgentCancel w'''))
               in (r,
                   case sb of
                     None \<Rightarrow> w4
                   | Some s \<Rightarrow>
                       (let (c, w5) = ext_call Ambient (SandboxCleanup (sb_ID s)) w4
                        in warn_on ''failed to cleanup sandbox'' c w5))))"

section \<open>The event loop\<close>

text \<open>\<open>processNextIssue\<close> (lines 769-797).\<close>

definition processNextIssue :: "Executor \<Rightarrow> world \<Rightarrow> go_error option \<times> world" where
  "processNextIssue e w =
     (let found = ready_work w (clock w);
          (r, w1) =
            store_call Ambient (GetReadyWork \<lparr> filter_Status = StatusOpen, filter_Limit = 1 \<rparr>) w
      in case r of
           Some err \<Rightarrow> (Some (Wrapped ''failed to get ready work'' err), w1)
         | None \<Rightarrow>
             (case found of
                [] \<Rightarrow> (None, w1)
              | issue # others \<Rightarrow>
                  let (c, w2) = store_call Ambient (ClaimIssue (issue_ID issue) (instanceID e)) w1
                  in case c of
                       Some err \<Rightarrow> (None, w2)
                     | None \<Rightarrow> executeIssue e issue w2))"

text \<open>
  One tick of \<open>eventLoop\<close> (lines 746-763). \<open>checkHealthMonitors\<close> is outside the
  sources.
\<close>

definition eventLoop_tick :: "Executor \<Rightarrow> world \<Rightarrow> world" where
  "eventLoop_tick e w =
     (let (h, w1) = store_call Ambient (UpdateHeartbeat (instanceID e)) w;
          w2 = warn_on ''failed to update heartbeat'' h w1;
          (p, w3) = processNextIssue e w2;
          w4 = warn_on ''error processing issue'' p w3
      in if enableHealthMonitoring e \<and> healthRegistry_set e then
           (let (c, w5) = ext_call Ambient CheckHealthMonitors w4
            in warn_on ''error running health monitors'' c w5)
         else w4)"

text \<open>
  \<open>eventLoop\<close> (lines 733-766): the list gives the case each \<open>select\<close> takes;
  the result says whether the loop has returned (and closed \<open>doneCh\<close>) or is
  still blocked in \<open>select\<close>.
\<close>

datatype loop_select = SelCtxDone | SelStop | SelTick

fun eventLoop :: "Executor \<Rightarrow> loop_select list \<Rightarrow> world \<Rightarrow> bool \<times> world" where
  "eventLoop e [] w = (False, w)"
| "eventLoop e (SelCtxDone # sel) w = (True, emit (Close DoneCh) w)"
| "eventLoop e (SelStop # sel) w = (True, emit (Close DoneCh) w)"
| "eventLoop e (SelTick # sel) w = eventLoop e sel (eventLoop_tick e w)"

text \<open>
  The \<open>UpdateExecutionState\<close> calls of a trace, in order: the issue and the state.
\<close>

fun state_update_of :: "effect \<Rightarrow> (string \<times> ExecutionState) list" where
  "state_update_of (Store cx (UpdateExecutionState i st) r) = [(i, st)]"
| "state_update_of x = []"

definition state_updates :: "effect list \<Rightarrow> (string \<times> ExecutionState) list" where
  "state_updates es = concat (map state_update_of es)"

text \<open>The calls of a trace that release a claim.\<close>

fun is_release :: "effect \<Rightarrow> bool" where
  "is_release (Store cx (ReleaseIssue i) r) = True"
| "is_release (Store cx (ReleaseIssueAndReopen i a m) r) = True"
| "is_release x = False"

definition release_effects :: "effect list \<Rightarrow> effect list" where
  "release_effects es = filter is_release es"

section \<open>Concrete inputs\<close>

text \<open>
  A configuration with a store, AI supervision and sandboxes switched off and
  \<open>InstanceCleanupKeep\<close> left at 0; an environment in which every constructor
  succeeds; a world in which the context is never cancelled and no call fails.
\<close>

definition example_cfg :: Config where
  "example_cfg =
     DefaultConfig\<lparr> Store_set := True, EnableAISupervision := False,
                    EnableSandboxes := False, InstanceCleanupKeep := 0 \<rparr>"

definition example_env :: new_env where
  "example_env =
     \<lparr> os_Hostname = Inr ''host-a'',
       os_Getpid = 4242,
       uuid_New = ''instance-1'',
       ai_NewSupervisor = None,
       sandbox_NewManager = None,
       watchdog_NewAnalyzer = None,
       watchdog_NewInterventionController = None,
       health_NewMonitorRegistry = None,
       watchdog_DefaultWatchdogConfig = \<lparr> wd_IsEnabled = True, MaxHistorySize = 100 \<rparr> \<rparr>"

definition example_executor :: Executor where
  "example_executor = (case New example_env example_cfg of Inr e \<Rightarrow> e)"

definition quiet_outside :: outside where
  "quiet_outside =
     \<lparr> o_cancel_at = None,
       o_cancel_err = Canceled,
       o_fault = (\<lambda>n. None),
       o_wall = (\<lambda>n. 1000 + int n),
       o_seconds = (\<lambda>d. d div Second),
       o_percent = (\<lambda>c. ''90''),
       o_uuids = (\<lambda>n. ''uuid'' @ replicate n (CHR ''x'')),
       o_counts = (\<lambda>n. 0),
       o_event_counts = (\<lambda>n. Some 0),
       o_histories = (\<lambda>n. []),
       o_ready_work = (\<lambda>n. []),
       o_assessments =
         (\<lambda>n. \<lparr> Strategy = ''fix it'', Confidence = 0, EstimatedEffort = ''small'',
                 Steps = [], Risks = [] \<rparr>),
       o_sandboxes = (\<lambda>n. \<lparr> sb_ID = ''sb'', sb_Path = ''.sandboxes/sb'', sb_GitBranch = ''mission/x'' \<rparr>),
       o_agent_results =
         (\<lambda>n. \<lparr> res_Success = True, ExitCode = 0, Duration_Milliseconds = 10, Output = [] \<rparr>),
       o_proc_results =
         (\<lambda>n. \<lparr> Completed = True, GatesPassed = True, DiscoveredIssues = [],
                 CommitHash = ''abc'', Summary = ''done'' \<rparr>) \<rparr>"

definition quiet_world :: world where
  "quiet_world =
     \<lparr> clock = 0, effects = [], outside = quiet_outside \<rparr>"

text \<open>A world in which the third external operation (the first store call of \<open>Start\<close>) fails.\<close>

definition register_fails_world :: world where
  "register_fails_world =
     quiet_world\<lparr> outside := quiet_outside
       \<lparr> o_fault := (\<lambda>n. if n = 2 then Some (Failure ''database is locked'') else None) \<rparr> \<rparr>"

text \<open>A world in which the fourth external operation (the reclamation of \<open>Start\<close>) fails.\<close>

definition reclaim_fails_world :: world where
  "reclaim_fails_world =
     quiet_world\<lparr> outside := quiet_outside
       \<lparr> o_fault := (\<lambda>n. if n = 3 then Some (Failure ''database is locked'') else None) \<rparr> \<rparr>"

definition example_retention :: EventRetentionConfig where
  "example_retention =
     \<lparr> RetentionDays = 30, RetentionCriticalDays = 180, PerIssueLimitEvents = 1000,
       GlobalLimitEvents = 50000, CleanupIntervalHours = 24, CleanupBatchSize = 1000,
       CleanupEnabled = True, CleanupVacuum = True \<rparr>"

definition failed_attempt :: ExecutionAttempt where
  "failed_attempt = \<lparr> AttemptNumber = 1, Success = Some False \<rparr>"

text \<open>A world in which the store returns a history of three failed attempts.\<close>

definition three_failures_world :: world where
  "three_failures_world =
     quiet_world\<lparr> outside := quiet_outside
       \<lparr> o_histories := (\<lambda>n. [failed_attempt, failed_attempt, failed_attempt]) \<rparr> \<rparr>"

text \<open>A world in which the context is cancelled once two external operations are done.\<close>

definition shutdown_world :: world where
  "shutdown_world = quiet_world\<lparr> outside := quiet_outside\<lparr> o_cancel_at := Some 2 \<rparr> \<rparr>"

text \<open>A world in which the three cleanup steps delete 5, 3 and 2 events and 40 remain.\<close>

definition deleting_world :: world where
  "deleting_world =
     quiet_world\<lparr> outside := quiet_outside
       \<lparr> o_counts := (\<lambda>n. if n = 1 then 5 else if n = 2 then 3 else 2),
         o_event_counts := (\<lambda>n. Some 40) \<rparr> \<rparr>"

text \<open>A database with foreign keys enforced and no issue at all.\<close>

definition empty_database :: database where
  "empty_database = \<lparr> issues = [], foreign_keys = True, vc_agent_events = [] \<rparr>"

definition example_issue :: Issue where
  "example_issue = \<lparr> issue_ID = ''vc-1'', issue_Title = ''Add retry to fetch'' \<rparr>"

text \<open>
  A world in which the context is cancelled while the agent runs: the fourteenth
  external operation (the wait for the agent) returns the context's error, and the
  context is done from then on.
\<close>

definition shutdown_during_wait_world :: world where
  "shutdown_during_wait_world =
     quiet_world\<lparr> outside := quiet_outside
       \<lparr> o_cancel_at := Some 14,
         o_fault := (\<lambda>n. if n = 13 then Some Canceled else None),
         o_ready_work := (\<lambda>n. [example_issue]) \<rparr> \<rparr>"

text \<open>A world in which another executor wins the claim: the second store call fails.\<close>

definition race_lost_world :: world where
  "race_lost_world =
     quiet_world\<lparr> outside := quiet_outside
       \<lparr> o_fault := (\<lambda>n. if n = 2 then Some (Failure ''issue already claimed'') else None),
         o_ready_work := (\<lambda>n. [example_issue]) \<rparr> \<rparr>"

section \<open>Basic facts about the environment\<close>

declare nat_to_string.simps [simp del] bit_length.simps [simp del]

lemma store_effects_simps [simp]:
  "store_effects [] = []"
  "store_effects (x # xs) = (if is_store x then [x] else []) @ store_effects xs"
  "store_effects (xs @ ys) = store_effects xs @ store_effects ys"
  by (simp_all add: store_effects_def)

lemma store_effects_warn [simp]:
  "store_effects (case r of Some err \<Rightarrow> [Warn msg (Some err)] | None \<Rightarrow> []) = []"
  by (simp split: option.splits)

lemma time_Now_simps [simp]:
  "fst (time_Now w) = wall w (clock w)"
  "snd (time_Now w) = tick w"
  by (simp_all add: time_Now_def)

lemma new_uuid_simps [simp]:
  "fst (new_uuid w) = uuids w (clock w)"
  "snd (new_uuid w) = tick w"
  by (simp_all add: new_uuid_def)

lemma since_Milliseconds_simps [simp]:
  "fst (since_Milliseconds t w) = go_quot (wall w (clock w) - t) 1000000"
  "snd (since_Milliseconds t w) = tick w"
  by (simp_all add: since_Milliseconds_def)

lemma tick_fields [simp]:
  "effects (tick w) = effects w"
  "clock (tick w) = Suc (clock w)"
  "outside (tick w) = outside w"
  by (simp_all add: tick_def)

lemma emit_fields [simp]:
  "clock (emit x w) = clock w"
  "outside (emit x w) = outside w"
  by (simp_all add: emit_def)

lemma tick_emit [simp]: "tick (emit x w) = emit x (tick w)"
  by (simp add: tick_def emit_def)

lemma ctx_err_emit [simp]: "ctx_err (emit x w) = ctx_err w"
  by (simp add: ctx_err_def)

lemma reply_emit [simp]: "reply cx (emit x w) = reply cx w"
  by (simp add: reply_def)

lemma warn_on_fields [simp]:
  "clock (warn_on msg r w) = clock w"
  "outside (warn_on msg r w) = outside w"
  by (simp_all add: warn_on_def split: option.splits)

lemma ctx_err_warn_on [simp]: "ctx_err (warn_on msg r w) = ctx_err w"
  by (simp add: ctx_err_def)

lemma reply_warn_on [simp]: "reply cx (warn_on msg r w) = reply cx w"
  by (simp add: reply_def)

lemma tick_warn_on [simp]: "tick (warn_on msg r w) = warn_on msg r (tick w)"
  by (simp add: warn_on_def split: option.splits)

lemma effects_emit [simp]: "effects (emit x w) = effects w @ [x]"
  by (simp add: emit_def)

lemma effects_warn_on [simp]:
  "effects (warn_on msg r w) =
     effects w @ (case r of Some err \<Rightarrow> [Warn msg (Some err)] | None \<Rightarrow> [])"
  by (simp add: warn_on_def split: option.splits)

lemma effects_store_call [simp]:
  "effects (snd (store_call cx op w)) = effects w @ [Store cx op (reply cx w)]"
  by (simp add: store_call_def)

lemma fst_store_call [simp]: "fst (store_call cx op w) = reply cx w"
  by (simp add: store_call_def)

lemma effects_ext_call [simp]:
  "effects (snd (ext_call cx op w)) = effects w @ [External cx op (reply cx w)]"
  by (simp add: ext_call_def)

lemma fst_ext_call [simp]: "fst (ext_call cx op w) = reply cx w"
  by (simp add: ext_call_def)

lemma store_call_fields [simp]:
  "clock (snd (store_call cx op w)) = Suc (clock w)"
  "outside (snd (store_call cx op w)) = outside w"
  by (simp_all add: store_call_def)

lemma ext_call_fields [simp]:
  "clock (snd (ext_call cx op w)) = Suc (clock w)"
  "outside (snd (ext_call cx op w)) = outside w"
  by (simp_all add: ext_call_def)

lemma reply_store_call [simp]: "reply cx (snd (store_call cx' op w)) = reply cx (tick w)"
  by (simp add: reply_def)

lemma reply_ext_call [simp]: "reply cx (snd (ext_call cx' op w)) = reply cx (tick w)"
  by (simp add: reply_def)

lemma keeps_of_append [simp]: "keeps_of (xs @ ys) = keeps_of xs @ keeps_of ys"
  by (simp add: keeps_of_def)

lemma keeps_of_Nil [simp]: "keeps_of [] = []"
  by (simp add: keeps_of_def)

lemma keeps_of_Cons [simp]: "keeps_of (x # xs) = keep_of x @ keeps_of xs"
  by (simp add: keeps_of_def)

lemma keeps_of_warn [simp]:
  "keeps_of (case r of Some err \<Rightarrow> [Warn msg (Some err)] | None \<Rightarrow> []) = []"
  by (simp split: option.splits)

lemma store_calls_simps [simp]:
  "store_calls [] = []"
  "store_calls (x # xs) = store_call_of x @ store_calls xs"
  "store_calls (xs @ ys) = store_calls xs @ store_calls ys"
  by (simp_all add: store_calls_def)

lemma store_calls_warn [simp]:
  "store_calls (case r of Some err \<Rightarrow> [Warn msg (Some err)] | None \<Rightarrow> []) = []"
  by (simp split: option.splits)

section \<open>Construction\<close>

lemma close_all_keep:
  "close_all cs e w = (b, e1, w1) \<Longrightarrow>
     instanceCleanupKeep e1 = instanceCleanupKeep e \<and> keeps_of (effects w1) = keeps_of (effects w)"
  by (induction cs arbitrary: e w) (auto split: if_splits)

lemma Stop_keeps:
  "Stop e sel w = (r, e', w') \<Longrightarrow>
     instanceCleanupKeep e' = instanceCleanupKeep e \<and>
     keeps_of (effects w') =
       keeps_of (effects w) @ (if r = Returns None then [instanceCleanupKeep e] else [])"
  by (auto simp: Stop_def Let_def split_beta
      split: if_splits prod.splits bool.splits wait_outcome.splits dest!: close_all_keep)

lemma cleanupLoop_tick_keeps:
  "cleanupLoop_tick e w = (r, w') \<Longrightarrow>
     keeps_of (effects w') =
       keeps_of (effects w) @ (if r = None then [instanceCleanupKeep e] else [])"
  by (auto simp: cleanupLoop_tick_def Let_def split_beta split: if_splits option.splits)

lemma Start_keep:
  "Start e w = (r, e', w') \<Longrightarrow>
     instanceCleanupKeep e' = instanceCleanupKeep e \<and> keeps_of (effects w') = keeps_of (effects w)"
  by (auto simp: Start_def Let_def split_beta cleanupOrphanedBranches_def time_Now_def
      split: if_splits option.splits)

lemma New_instanceCleanupKeep:
  "New env cfg = Inr e \<Longrightarrow>
     instanceCleanupKeep e = (if InstanceCleanupKeep cfg = 0 then 10 else InstanceCleanupKeep cfg)"
  by (auto simp: New_def Let_def split: if_splits sum.splits)

lemma example_executor_eq:
  "New example_env example_cfg = Inr example_executor"
  by (simp add: example_executor_def New_def example_env_def example_cfg_def DefaultConfig_def
      Let_def)

text \<open>
  C9. \<open>New\<close> reads \<open>InstanceCleanupKeep = 0\<close> as "not set" and stores the default 10;
  any other value is stored as given. So the keep-count of an executor built by \<open>New\<close>
  is never 0, \<open>Start\<close> and \<open>Stop\<close> leave it as it is, and both callers of
  \<open>DeleteOldStoppedInstances\<close> (\<open>Stop\<close> and the cleanup loop) pass that count: the
  store is never asked to keep 0 instances.
\<close>

theorem New_InstanceCleanupKeep_zero_is_default:
  "New env cfg = Inr e \<Longrightarrow>
     (InstanceCleanupKeep cfg = 0 \<longrightarrow> instanceCleanupKeep e = 10) \<and>
     (InstanceCleanupKeep cfg \<noteq> 0 \<longrightarrow> instanceCleanupKeep e = InstanceCleanupKeep cfg) \<and>
     instanceCleanupKeep e \<noteq> 0 \<and>
     instanceCleanupKeep (fst (snd (Start e w))) = instanceCleanupKeep e \<and>
     instanceCleanupKeep (fst (snd (Stop e sel w))) = instanceCleanupKeep e \<and>
     (\<forall>x sel' w'. instanceCleanupKeep x = instanceCleanupKeep e \<longrightarrow>
        0 \<notin> set (keeps_of (effects w')) \<longrightarrow>
          0 \<notin> set (keeps_of (effects (snd (snd (Stop x sel' w'))))) \<and>
          0 \<notin> set (keeps_of (effects (snd (cleanupLoop_tick x w')))))"
proof -
  assume new: "New env cfg = Inr e"
  have keep: "instanceCleanupKeep e =
      (if InstanceCleanupKeep cfg = 0 then 10 else InstanceCleanupKeep cfg)"
    using new by (rule New_instanceCleanupKeep)
  have nz: "instanceCleanupKeep e \<noteq> 0"
    using keep by (simp split: if_splits)
  have start: "instanceCleanupKeep (fst (snd (Start e w))) = instanceCleanupKeep e"
    using Start_keep [of e w "fst (Start e w)" "fst (snd (Start e w))" "snd (snd (Start e w))"]
    by simp
  have stop: "instanceCleanupKeep (fst (snd (Stop e sel w))) = instanceCleanupKeep e"
    using Stop_keeps [of e sel w "fst (Stop e sel w)" "fst (snd (Stop e sel w))"
        "snd (snd (Stop e sel w))"]
    by simp
  have calls: "0 \<notin> set (keeps_of (effects (snd (snd (Stop x sel' w'))))) \<and>
      0 \<notin> set (keeps_of (effects (snd (cleanupLoop_tick x w'))))"
    if x: "instanceCleanupKeep x = instanceCleanupKeep e"
      and w': "0 \<notin> set (keeps_of (effects w'))" for x sel' w'
  proof -
    have a: "keeps_of (effects (snd (snd (Stop x sel' w')))) =
        keeps_of (effects w') @
          (if fst (Stop x sel' w') = Returns None then [instanceCleanupKeep x] else [])"
      using Stop_keeps [of x sel' w' "fst (Stop x sel' w')" "fst (snd (Stop x sel' w'))"
          "snd (snd (Stop x sel' w'))"]
      by simp
    have b: "keeps_of (effects (snd (cleanupLoop_tick x w'))) =
        keeps_of (effects w') @
          (if fst (cleanupLoop_tick x w') = None then [instanceCleanupKeep x] else [])"
      using cleanupLoop_tick_keeps [of x w' "fst (cleanupLoop_tick x w')"
          "snd (cleanupLoop_tick x w')"]
      by simp
    show ?thesis
      using a b x w' nz by auto
  qed
  show ?thesis
    using keep nz start stop calls by (simp split: if_splits)
qed

theorem New_InstanceCleanupKeep_zero_is_default_witness:
  "New example_env example_cfg = Inr example_executor \<and>
   InstanceCleanupKeep example_cfg = 0 \<and>
   instanceCleanupKeep example_executor = 10"
proof -
  have zero: "InstanceCleanupKeep example_cfg = 0"
    by (simp add: example_cfg_def)
  show ?thesis
    using New_InstanceCleanupKeep_zero_is_default [OF example_executor_eq, of quiet_world "[]"] zero
      example_executor_eq
    by simp
qed

section \<open>Start\<close>

lemma Start_running:
  "running e \<Longrightarrow> Start e w = (Some (Failure ''executor is already running''), e, w)"
  by (simp add: Start_def)

lemma Start_register_fails:
  assumes "\<not> running e" and "reply Ambient (tick (tick w)) = Some err"
  shows "Start e w =
     (Some (Wrapped ''failed to register executor instance'' err), e\<lparr>running := False\<rparr>,
      emit (Store Ambient
              (RegisterInstance
                 (start_instance e (wall w (clock w)) (wall w (Suc (clock w))))) (Some err))
        (tick (tick (tick w))))"
  using assms
  by (simp add: Start_def Let_def split_beta time_Now_def store_call_def start_instance_def)

lemma Start_registered:
  assumes "\<not> running e" and "reply Ambient (tick (tick w)) = None"
  shows "fst (Start e w) = None"
    and "fst (snd (Start e w)) = e\<lparr>running := True\<rparr>"
    and "effects (snd (snd (Start e w))) =
      effects w @
      [Store Ambient
         (RegisterInstance (start_instance e (wall w (clock w)) (wall w (Suc (clock w))))) None,
       Store Ambient (CleanupStaleInstances (seconds w (staleThreshold e)))
         (reply Ambient (tick (tick (tick w))))] @
      (case reply Ambient (tick (tick (tick w))) of
         Some err \<Rightarrow> [Warn ''failed to cleanup stale instances on startup'' (Some err)]
       | None \<Rightarrow> []) @
      (if enableSandboxes e \<and> \<not> KeepBranches (config e) then
         [External Ambient CleanupOrphanedBranches (reply Ambient (tick (tick (tick (tick w)))))] @
         (case reply Ambient (tick (tick (tick (tick w)))) of
            Some err \<Rightarrow> [Warn ''failed to cleanup orphaned branches'' (Some err)]
          | None \<Rightarrow> [])
       else []) @
      [Go EventLoopG] @
      (if wd_IsEnabled (watchdogConfig e) \<and> analyzer_set e \<and> intervention_set e
       then [Go WatchdogLoopG] else []) @
      [Go CleanupLoopG, Go EventCleanupLoopG]"
  using assms
  by (simp_all add: Start_def Let_def split_beta time_Now_def store_call_def start_instance_def
      cleanupOrphanedBranches_def ext_call_def)

text \<open>
  C10. \<open>Start\<close> on a running executor returns an error and changes nothing: not the
  executor, not the world (no instance is registered, the store is not called). When
  \<open>RegisterInstance\<close> returns an error, \<open>Start\<close> returns it wrapped, the running flag
  is false again (\<open>IsRunning\<close> reports false), and the one failed \<open>RegisterInstance\<close>
  call is all that \<open>Start\<close> has done: no loop is started and the store is not called
  again.
\<close>

theorem Start_atomic_on_failure:
  "(running e \<longrightarrow>
      Start e w = (Some (Failure ''executor is already running''), e, w)) \<and>
   (\<not> running e \<longrightarrow> reply Ambient (tick (tick w)) = Some err \<longrightarrow>
      fst (Start e w) = Some (Wrapped ''failed to register executor instance'' err) \<and>
      fst (snd (Start e w)) = e\<lparr>running := False\<rparr> \<and>
      \<not> IsRunning (fst (snd (Start e w))) \<and>
      effects (snd (snd (Start e w))) =
        effects w @
        [Store Ambient
           (RegisterInstance (start_instance e (wall w (clock w)) (wall w (Suc (clock w)))))
           (Some err)])"
  by (simp add: Start_running Start_register_fails IsRunning_def)

lemma example_executor_fields:
  "running example_executor = False"
  "closed example_executor = []"
  "analyzer_set example_executor = False"
  "enableSandboxes example_executor = False"
  "intervention_set example_executor = True"
  "staleThreshold example_executor = 5 * Minute"
  "instanceID example_executor = ''instance-1''"
  "enableAISupervision example_executor = False"
  "supervisor_set example_executor = False"
  "sandboxMgr_set example_executor = False"
  "enableHealthMonitoring example_executor = False"
  by (simp_all add: example_executor_def New_def example_env_def example_cfg_def
      DefaultConfig_def Let_def)

lemma reply_quiet [simp]:
  "reply cx quiet_world = None"
  "reply cx (tick quiet_world) = None"
  "reply cx (tick (tick quiet_world)) = None"
  "reply cx (tick (tick (tick quiet_world))) = None"
  by (simp_all add: reply_def reply_at_def ctx_err_at_def quiet_world_def quiet_outside_def tick_def)

theorem Start_atomic_on_failure_witness:
  "\<not> running example_executor \<and>
   reply Ambient (tick (tick register_fails_world)) = Some (Failure ''database is locked'') \<and>
   fst (Start example_executor register_fails_world) =
     Some (Wrapped ''failed to register executor instance'' (Failure ''database is locked'')) \<and>
   \<not> IsRunning (fst (snd (Start example_executor register_fails_world))) \<and>
   running (example_executor\<lparr>running := True\<rparr>) \<and>
   Start (example_executor\<lparr>running := True\<rparr>) quiet_world =
     (Some (Failure ''executor is already running''), example_executor\<lparr>running := True\<rparr>,
      quiet_world)"
proof -
  have r: "reply Ambient (tick (tick register_fails_world)) = Some (Failure ''database is locked'')"
    by (simp add: reply_def reply_at_def ctx_err_at_def register_fails_world_def quiet_world_def quiet_outside_def tick_def)
  show ?thesis
    using Start_atomic_on_failure [of example_executor register_fails_world
        "Failure ''database is locked''"]
      Start_atomic_on_failure [of "example_executor\<lparr>running := True\<rparr>" quiet_world Canceled]
      r
    by (simp add: example_executor_fields IsRunning_def)
qed

text \<open>
  C7. When \<open>Start\<close> has registered the instance (status running, \<open>StartedAt\<close> and
  \<open>LastHeartbeat\<close> read from the clock just before), its next store call is
  \<open>CleanupStaleInstances\<close> with the stale threshold in seconds, made in \<open>Start\<close>
  itself; only after it (and the orphaned-branch cleanup) is the event loop started,
  then the other loops. Whatever the reclamation returns, \<open>Start\<close> returns nil; an
  error is written as a warning.
\<close>

theorem Start_reclaims_before_event_loop:
  "\<not> running e \<Longrightarrow> reply Ambient (tick (tick w)) = None \<Longrightarrow>
     fst (Start e w) = None \<and>
     IsRunning (fst (snd (Start e w))) \<and>
     Status (start_instance e t1 t2) = ExecutorStatusRunning \<and>
     LastHeartbeat (start_instance e t1 t2) = t2 \<and>
     effects (snd (snd (Start e w))) =
       effects w @
       [Store Ambient
          (RegisterInstance (start_instance e (wall w (clock w)) (wall w (Suc (clock w))))) None,
        Store Ambient (CleanupStaleInstances (seconds w (staleThreshold e)))
          (reply Ambient (tick (tick (tick w))))] @
       (case reply Ambient (tick (tick (tick w))) of
          Some err \<Rightarrow> [Warn ''failed to cleanup stale instances on startup'' (Some err)]
        | None \<Rightarrow> []) @
       (if enableSandboxes e \<and> \<not> KeepBranches (config e) then
          [External Ambient CleanupOrphanedBranches (reply Ambient (tick (tick (tick (tick w)))))] @
          (case reply Ambient (tick (tick (tick (tick w)))) of
             Some err \<Rightarrow> [Warn ''failed to cleanup orphaned branches'' (Some err)]
           | None \<Rightarrow> [])
        else []) @
       [Go EventLoopG] @
       (if wd_IsEnabled (watchdogConfig e) \<and> analyzer_set e \<and> intervention_set e
        then [Go WatchdogLoopG] else []) @
       [Go CleanupLoopG, Go EventCleanupLoopG]"
proof -
  assume a: "\<not> running e" and b: "reply Ambient (tick (tick w)) = None"
  have "IsRunning (fst (snd (Start e w)))"
    using Start_registered(2) [OF a b] by (simp add: IsRunning_def)
  moreover have "Status (start_instance e t1 t2) = ExecutorStatusRunning"
    and "LastHeartbeat (start_instance e t1 t2) = t2"
    by (simp_all add: start_instance_def)
  ultimately show ?thesis
    using Start_registered(1) [OF a b] Start_registered(3) [OF a b] by simp
qed

theorem Start_reclaims_before_event_loop_witness:
  "\<not> running example_executor \<and>
   reply Ambient (tick (tick reclaim_fails_world)) = None \<and>
   fst (Start example_executor reclaim_fails_world) = None \<and>
   effects (snd (snd (Start example_executor reclaim_fails_world))) =
     [Store Ambient (RegisterInstance (start_instance example_executor 1000 1001)) None,
      Store Ambient (CleanupStaleInstances 300) (Some (Failure ''database is locked'')),
      Warn ''failed to cleanup stale instances on startup'' (Some (Failure ''database is locked'')),
      Go EventLoopG, Go CleanupLoopG, Go EventCleanupLoopG]"
proof -
  have r: "reply Ambient (tick (tick reclaim_fails_world)) = None"
    "reply Ambient (tick (tick (tick reclaim_fails_world))) = Some (Failure ''database is locked'')"
    by (simp_all add: reply_def reply_at_def ctx_err_at_def reclaim_fails_world_def quiet_world_def quiet_outside_def tick_def)
  have s: "seconds reclaim_fails_world (5 * Minute) = 300"
    by (simp add: reclaim_fails_world_def quiet_world_def quiet_outside_def Minute_def Second_def)
  have f: "wall reclaim_fails_world (clock reclaim_fails_world) = 1000"
    "wall reclaim_fails_world (Suc (clock reclaim_fails_world)) = 1001"
    "effects reclaim_fails_world = []"
    by (simp_all add: reclaim_fails_world_def quiet_world_def quiet_outside_def)
  have nr: "\<not> running example_executor"
    by (simp add: example_executor_fields)
  note inst = Start_reclaims_before_event_loop [OF nr r(1), of 0 0]
  have a: "fst (Start example_executor reclaim_fails_world) = None"
    using inst by blast
  have b: "effects (snd (snd (Start example_executor reclaim_fails_world))) =
     [Store Ambient (RegisterInstance (start_instance example_executor 1000 1001)) None,
      Store Ambient (CleanupStaleInstances 300) (Some (Failure ''database is locked'')),
      Warn ''failed to cleanup stale instances on startup'' (Some (Failure ''database is locked'')),
      Go EventLoopG, Go CleanupLoopG, Go EventCleanupLoopG]"
    by (simp only: inst [THEN conjunct2, THEN conjunct2, THEN conjunct2, THEN conjunct2])
      (simp add: r s f example_executor_fields)
  show ?thesis
    using nr r(1) a b by blast
qed

section \<open>Stop\<close>

declare stop_wait.simps [simp del]

lemma stop_wait_eq:
  "stop_wait a b c d sel =
     (if (a \<or> RecvDone \<in> observed sel) \<and> (b \<or> RecvWatchdogDone \<in> observed sel) \<and>
         (c \<or> RecvCleanupDone \<in> observed sel) \<and> (d \<or> RecvEventCleanupDone \<in> observed sel)
      then AllDone
      else if RecvCtxDone \<in> set sel then CtxFired else StillWaiting)"
proof (induction sel arbitrary: a b c d)
  case Nil
  show ?case
    by (subst stop_wait.simps) (simp add: observed_def)
next
  case (Cons x xs)
  show ?case
  proof (cases "a \<and> b \<and> c \<and> d")
    case True
    then show ?thesis
      by (subst stop_wait.simps) simp
  next
    case False
    then show ?thesis
      by (subst stop_wait.simps, cases x) (auto simp: Cons.IH observed_def)
  qed
qed

lemma Stop_eq:
  assumes "running e"
    and "StopCh \<notin> set (closed e)" and "WatchdogStopCh \<notin> set (closed e)"
    and "CleanupStopCh \<notin> set (closed e)" and "EventCleanupStopCh \<notin> set (closed e)"
  shows "fst (Stop e sel w) =
      (if awaited e \<subseteq> observed sel then Returns None
       else if RecvCtxDone \<in> set sel then Returns (Some (cancel_err w)) else Blocks)"
    and "running (fst (snd (Stop e sel w))) = (\<not> awaited e \<subseteq> observed sel)"
    and "store_calls (effects (snd (snd (Stop e sel w)))) =
      store_calls (effects w) @
      (if awaited e \<subseteq> observed sel
       then [MarkInstanceStopped (instanceID e),
             DeleteOldStoppedInstances (seconds w (instanceCleanupAge e)) (instanceCleanupKeep e)]
       else [])"
  using assms
  by (auto simp add: Stop_def Let_def split_beta stop_wait_eq awaited_def store_call_def)

text \<open>
  C3. As the claim states it, \<open>Stop\<close> returns only after the done-signals of all
  four loops have been observed. An executor built with AI supervision off has no
  analyzer, so \<open>Stop\<close> takes the watchdog's signal as already seen: it returns nil
  after the other three signals, the watchdog's never received.
\<close>

theorem Stop_without_watchdog_signal:
  "running (example_executor\<lparr>running := True\<rparr>) \<and>
   fst (Stop (example_executor\<lparr>running := True\<rparr>)
          [RecvCleanupDone, RecvEventCleanupDone, RecvDone] quiet_world) = Returns None \<and>
   RecvWatchdogDone \<notin> set [RecvCleanupDone, RecvEventCleanupDone, RecvDone]"
  by (simp add: Stop_eq(1) example_executor_fields awaited_def observed_def)

text \<open>
  C3, amended. \<open>Stop\<close> on a running executor (whose stop channels are still open)
  waits for the done-signals of the event loop, the cleanup loop and the event-cleanup
  loop, and for the watchdog's only when the watchdog is enabled and an analyzer
  exists. The wait is one \<open>select\<close> loop over all of them: what counts is the set of
  signals received before \<open>ctx.Done()\<close> is taken, in whatever order they come.
  \<open>Stop\<close> returns nil exactly when that set holds every awaited signal, and only
  then marks the instance stopped, prunes old instances and clears the running flag.
  If \<open>ctx.Done()\<close> is taken first, \<open>Stop\<close> returns the context's error at that
  \<open>select\<close>, without a store call, the executor still marked running. Otherwise it
  stays blocked.
\<close>

theorem Stop_waits_for_awaited_signals:
  "running e \<Longrightarrow>
   StopCh \<notin> set (closed e) \<Longrightarrow> WatchdogStopCh \<notin> set (closed e) \<Longrightarrow>
   CleanupStopCh \<notin> set (closed e) \<Longrightarrow> EventCleanupStopCh \<notin> set (closed e) \<Longrightarrow>
     awaited e =
       {RecvDone, RecvCleanupDone, RecvEventCleanupDone} \<union>
       (if wd_IsEnabled (watchdogConfig e) \<and> analyzer_set e then {RecvWatchdogDone} else {}) \<and>
     observed sel = set (takeWhile (\<lambda>s. s \<noteq> RecvCtxDone) sel) \<and>
     (fst (Stop e sel w) = Returns None \<longleftrightarrow> awaited e \<subseteq> observed sel) \<and>
     (\<not> awaited e \<subseteq> observed sel \<and> RecvCtxDone \<in> set sel \<longrightarrow>
        fst (Stop e sel w) = Returns (Some (cancel_err w)) \<and>
        IsRunning (fst (snd (Stop e sel w))) \<and>
        store_calls (effects (snd (snd (Stop e sel w)))) = store_calls (effects w)) \<and>
     (\<not> awaited e \<subseteq> observed sel \<and> RecvCtxDone \<notin> set sel \<longrightarrow>
        fst (Stop e sel w) = Blocks) \<and>
     (awaited e \<subseteq> observed sel \<longrightarrow>
        \<not> IsRunning (fst (snd (Stop e sel w))) \<and>
        store_calls (effects (snd (snd (Stop e sel w)))) =
          store_calls (effects w) @
          [MarkInstanceStopped (instanceID e),
           DeleteOldStoppedInstances (seconds w (instanceCleanupAge e)) (instanceCleanupKeep e)])"
proof -
  assume a: "running e" "StopCh \<notin> set (closed e)" "WatchdogStopCh \<notin> set (closed e)"
    "CleanupStopCh \<notin> set (closed e)" "EventCleanupStopCh \<notin> set (closed e)"
  note eq = Stop_eq [OF a, of sel w]
  show ?thesis
    by (simp add: eq IsRunning_def) (auto simp: awaited_def observed_def)
qed

theorem Stop_waits_for_awaited_signals_witness:
  "running (example_executor\<lparr>running := True, analyzer_set := True\<rparr>) \<and>
   closed (example_executor\<lparr>running := True, analyzer_set := True\<rparr>) = [] \<and>
   fst (Stop (example_executor\<lparr>running := True, analyzer_set := True\<rparr>)
          [RecvWatchdogDone, RecvEventCleanupDone, RecvDone, RecvEventCleanupDone, RecvCleanupDone]
          quiet_world) = Returns None \<and>
   fst (Stop (example_executor\<lparr>running := True, analyzer_set := True\<rparr>)
          [RecvCleanupDone, RecvEventCleanupDone, RecvDone, RecvCtxDone, RecvWatchdogDone]
          quiet_world) = Returns (Some Canceled) \<and>
   fst (Stop (example_executor\<lparr>running := True, analyzer_set := True\<rparr>)
          [RecvCleanupDone, RecvEventCleanupDone, RecvDone] quiet_world) = Blocks"
proof -
  let ?e = "example_executor\<lparr>running := True, analyzer_set := True\<rparr>"
  have e: "running ?e" "StopCh \<notin> set (closed ?e)" "WatchdogStopCh \<notin> set (closed ?e)"
    "CleanupStopCh \<notin> set (closed ?e)" "EventCleanupStopCh \<notin> set (closed ?e)"
    "closed ?e = []"
    by (simp_all add: example_executor_fields)
  have aw: "awaited ?e = {RecvDone, RecvCleanupDone, RecvEventCleanupDone, RecvWatchdogDone}"
    by (auto simp: awaited_def example_executor_def New_def example_env_def example_cfg_def
        DefaultConfig_def Let_def)
  have c: "cancel_err quiet_world = Canceled"
    by (simp add: quiet_world_def quiet_outside_def)
  note t = Stop_waits_for_awaited_signals [OF e(1-5)]
  have o1: "awaited ?e \<subseteq> observed [RecvWatchdogDone, RecvEventCleanupDone, RecvDone,
      RecvEventCleanupDone, RecvCleanupDone]"
    by (simp add: aw observed_def)
  have 1: "fst (Stop ?e [RecvWatchdogDone, RecvEventCleanupDone, RecvDone, RecvEventCleanupDone,
      RecvCleanupDone] quiet_world) = Returns None"
    using t [of "[RecvWatchdogDone, RecvEventCleanupDone, RecvDone, RecvEventCleanupDone,
      RecvCleanupDone]" quiet_world] o1
    by blast
  have o2: "\<not> awaited ?e \<subseteq> observed [RecvCleanupDone, RecvEventCleanupDone, RecvDone,
      RecvCtxDone, RecvWatchdogDone] \<and>
      RecvCtxDone \<in> set [RecvCleanupDone, RecvEventCleanupDone, RecvDone, RecvCtxDone,
      RecvWatchdogDone]"
    by (simp add: aw observed_def)
  have "fst (Stop ?e [RecvCleanupDone, RecvEventCleanupDone, RecvDone, RecvCtxDone,
      RecvWatchdogDone] quiet_world) = Returns (Some (cancel_err quiet_world))"
    using t [of "[RecvCleanupDone, RecvEventCleanupDone, RecvDone, RecvCtxDone,
      RecvWatchdogDone]" quiet_world] o2
    by blast
  then have 2: "fst (Stop ?e [RecvCleanupDone, RecvEventCleanupDone, RecvDone, RecvCtxDone,
      RecvWatchdogDone] quiet_world) = Returns (Some Canceled)"
    by (simp only: c)
  have o3: "\<not> awaited ?e \<subseteq> observed [RecvCleanupDone, RecvEventCleanupDone, RecvDone] \<and>
      RecvCtxDone \<notin> set [RecvCleanupDone, RecvEventCleanupDone, RecvDone]"
    by (simp add: aw observed_def)
  have 3: "fst (Stop ?e [RecvCleanupDone, RecvEventCleanupDone, RecvDone] quiet_world) = Blocks"
    using t [of "[RecvCleanupDone, RecvEventCleanupDone, RecvDone]" quiet_world] o3
    by blast
  show ?thesis
    using e(1) e(6) 1 2 3 by blast
qed

section \<open>releaseIssueWithError\<close>

lemma releaseIssueWithError_effects:
  "store_effects (effects (releaseIssueWithError cx e issueID errMsg w)) =
     store_effects (effects w) @
     Store cx (GetExecutionHistory issueID) (reply cx w) #
     (if 3 \<le> consecutiveFailures (histories w (clock w)) then
        [Store cx (ReleaseIssue issueID) (reply cx (tick w)),
         Store cx (UpdateIssue issueID [(''status'', StatusBlocked)] ''executor'')
           (reply cx (tick (tick w))),
         Store cx (AddComment issueID ''executor''
                 (blockReason (consecutiveFailures (histories w (clock w))) errMsg))
           (reply cx (tick (tick (tick w))))]
      else [Store cx (ReleaseIssueAndReopen issueID (instanceID e) errMsg) (reply cx (tick w))])"
  by (simp add: releaseIssueWithError_def Let_def split_beta maxConsecutiveFailures_def reply_def)

lemma releaseIssueWithError_fields [simp]:
  "outside (releaseIssueWithError cx e issueID errMsg w) = outside w"
  "clock (releaseIssueWithError cx e issueID errMsg w) =
     clock w + (if 3 \<le> consecutiveFailures (histories w (clock w)) then 4 else 2)"
  by (simp_all add: releaseIssueWithError_def Let_def split_beta maxConsecutiveFailures_def)

lemma consecutiveFailures_snoc:
  "consecutiveFailures (h @ [a]) =
     (case Success a of
        None \<Rightarrow> consecutiveFailures h
      | Some ok \<Rightarrow> if ok then 0 else Suc (consecutiveFailures h))"
  by (simp add: consecutiveFailures_def split: option.splits)

lemma consecutiveFailures_three:
  assumes "Success a = Some False" and "Success b = Some False" and "Success c = Some False"
  shows "3 \<le> consecutiveFailures (h @ [a, b, c])"
proof -
  have "consecutiveFailures ((h @ [a, b]) @ [c]) = Suc (consecutiveFailures (h @ [a, b]))"
    using assms(3) by (simp only: consecutiveFailures_snoc) simp
  moreover have "consecutiveFailures ((h @ [a]) @ [b]) = Suc (consecutiveFailures (h @ [a]))"
    using assms(2) by (simp only: consecutiveFailures_snoc) simp
  moreover have "consecutiveFailures (h @ [a]) = Suc (consecutiveFailures h)"
    using assms(1) by (simp only: consecutiveFailures_snoc) simp
  ultimately show ?thesis by simp
qed

lemma nat_to_string_3: "nat_to_string 3 = ''3''"
  by (simp add: nat_to_string.simps)

text \<open>
  C2. \<open>releaseIssueWithError\<close> reads the execution history and counts its trailing
  failed attempts: from the last attempt back, an attempt with unknown success is
  skipped, a failed one counts, the first successful one ends the count. With a count
  of 3 (\<open>maxConsecutiveFailures\<close>) or more its store calls are \<open>ReleaseIssue\<close>,
  \<open>UpdateIssue\<close> with status blocked and \<open>AddComment\<close> with the count and the last
  error, and no \<open>ReleaseIssueAndReopen\<close>; with a smaller count the one call is
  \<open>ReleaseIssueAndReopen\<close>. A history that ends in three failed attempts has a count
  of at least 3.
\<close>

theorem releaseIssueWithError_blocks_at_three:
  "store_effects (effects (releaseIssueWithError cx e issueID errMsg w)) =
     store_effects (effects w) @
     Store cx (GetExecutionHistory issueID) (reply cx w) #
     (if maxConsecutiveFailures \<le> consecutiveFailures (histories w (clock w)) then
        [Store cx (ReleaseIssue issueID) (reply cx (tick w)),
         Store cx (UpdateIssue issueID [(''status'', StatusBlocked)] ''executor'')
           (reply cx (tick (tick w))),
         Store cx (AddComment issueID ''executor''
                 (''Blocked after '' @ nat_to_string (consecutiveFailures (histories w (clock w)))
                    @ '' consecutive execution failures. Last error: '' @ errMsg))
           (reply cx (tick (tick (tick w))))]
      else [Store cx (ReleaseIssueAndReopen issueID (instanceID e) errMsg) (reply cx (tick w))]) \<and>
   maxConsecutiveFailures = 3 \<and>
   consecutiveFailures [] = 0 \<and>
   consecutiveFailures (h @ [a]) =
     (case Success a of
        None \<Rightarrow> consecutiveFailures h
      | Some ok \<Rightarrow> if ok then 0 else Suc (consecutiveFailures h)) \<and>
   (Success a = Some False \<and> Success b = Some False \<and> Success c = Some False \<longrightarrow>
      maxConsecutiveFailures \<le> consecutiveFailures (h @ [a, b, c]))"
proof -
  have "consecutiveFailures [] = 0"
    by (simp add: consecutiveFailures_def)
  then show ?thesis
    using consecutiveFailures_three [of a b c h]
    by (simp add: releaseIssueWithError_effects maxConsecutiveFailures_def blockReason_def
        consecutiveFailures_snoc)
qed

theorem releaseIssueWithError_blocks_at_three_witness:
  "Success failed_attempt = Some False \<and>
   histories three_failures_world (clock three_failures_world) =
     [] @ [failed_attempt, failed_attempt, failed_attempt] \<and>
   store_effects (effects (releaseIssueWithError Background example_executor ''vc-1'' ''boom''
      three_failures_world)) =
     [Store Background (GetExecutionHistory ''vc-1'') None,
      Store Background (ReleaseIssue ''vc-1'') None,
      Store Background (UpdateIssue ''vc-1'' [(''status'', StatusBlocked)] ''executor'') None,
      Store Background (AddComment ''vc-1'' ''executor''
        ''Blocked after 3 consecutive execution failures. Last error: boom'') None]"
proof -
  have f: "Success failed_attempt = Some False"
    by (simp add: failed_attempt_def)
  have h: "histories three_failures_world (clock three_failures_world) =
      [] @ [failed_attempt, failed_attempt, failed_attempt]"
    by (simp add: three_failures_world_def)
  note t = releaseIssueWithError_blocks_at_three [of Background example_executor "''vc-1''"
      "''boom''" three_failures_world "[]" failed_attempt failed_attempt failed_attempt]
  have n: "consecutiveFailures (histories three_failures_world (clock three_failures_world)) = 3"
    by (simp add: h consecutiveFailures_def failed_attempt_def)
  have r: "reply Background three_failures_world = None"
    "reply Background (tick three_failures_world) = None"
    "reply Background (tick (tick three_failures_world)) = None"
    "reply Background (tick (tick (tick three_failures_world))) = None"
    "effects three_failures_world = []"
    by (simp_all add: reply_def reply_at_def three_failures_world_def quiet_world_def
        quiet_outside_def)
  have "store_effects (effects (releaseIssueWithError Background example_executor ''vc-1'' ''boom''
      three_failures_world)) =
     [Store Background (GetExecutionHistory ''vc-1'') None,
      Store Background (ReleaseIssue ''vc-1'') None,
      Store Background (UpdateIssue ''vc-1'' [(''status'', StatusBlocked)] ''executor'') None,
      Store Background (AddComment ''vc-1'' ''executor''
        ''Blocked after 3 consecutive execution failures. Last error: boom'') None]"
    by (simp only: t [THEN conjunct1]) (simp add: n r maxConsecutiveFailures_def nat_to_string_3)
  with f h show ?thesis by blast
qed

section \<open>VCStorage.StoreAgentEvent and system-wide events\<close>

lemma logCleanupEvent_effects:
  "effects (logCleanupEvent e t a b c ms v r s m w) =
     effects w @
     (if ctx_err w = None then
        Store Ambient
          (StoreAgentEvent
             (cleanup_event e (uuids w (clock w)) (wall w (Suc (clock w))) t ms s m
                (cleanup_data t a b c ms v r s m)))
          (reply Ambient (tick (tick w))) #
        (case reply Ambient (tick (tick w)) of
           Some err \<Rightarrow> [Warn ''failed to store cleanup event'' (Some err)]
         | None \<Rightarrow> [])
      else [])"
  by (simp add: logCleanupEvent_def Let_def split_beta reply_def)

lemma logCleanupEvent_fields [simp]:
  "outside (logCleanupEvent e t a b c ms v r s m w) = outside w"
  by (simp add: logCleanupEvent_def Let_def split_beta)

lemma StoreAgentEvent_never_foreign_key:
  "IssueID event = [] \<Longrightarrow>
     fst (VCStorage_StoreAgentEvent marshal ctx_done None db event) \<noteq>
       Some (Wrapped ''failed to store agent event'' foreign_key_failed)"
  by (auto simp: VCStorage_StoreAgentEvent_def insert_agent_event_def event_row_of_def
      null_if_empty_def foreign_key_failed_def split: sum.splits option.splits if_splits)

lemma StoreAgentEvent_stored:
  "IssueID event = [] \<Longrightarrow> (case Data event of None \<Rightarrow> Inr [] | Some d \<Rightarrow> marshal d) = Inr j \<Longrightarrow>
     VCStorage_StoreAgentEvent marshal False None db event =
       (None, db\<lparr>vc_agent_events := vc_agent_events db @ [event_row_of event j]\<rparr>)"
  by (simp add: VCStorage_StoreAgentEvent_def insert_agent_event_def event_row_of_def
      null_if_empty_def)

lemma StoreAgentEvent_cleanup_event:
  "marshal d = Inr j \<Longrightarrow>
     VCStorage_StoreAgentEvent marshal False None db (cleanup_event e u t tot ms s m d) =
       (if foreign_keys db \<and> ''SYSTEM'' \<notin> set (issues db)
        then (Some (Wrapped ''failed to store agent event'' foreign_key_failed), db)
        else (None, db\<lparr>vc_agent_events := vc_agent_events db @
                 [event_row_of (cleanup_event e u t tot ms s m d) j]\<rparr>))"
  by (simp add: VCStorage_StoreAgentEvent_def insert_agent_event_def event_row_of_def
      null_if_empty_def cleanup_event_def)

text \<open>
  C8. As the claim states it, every system-wide event the executor emits, the
  event-cleanup summary among them, can be stored with no issue row in the database.
  The summary event that \<open>logCleanupEvent\<close> hands to the store carries the issue id
  \<open>SYSTEM\<close>, not the empty string: in a database that enforces foreign keys and has
  no issue row, \<open>StoreAgentEvent\<close> fails on it with the foreign-key error and stores
  nothing.
\<close>

theorem cleanup_summary_needs_SYSTEM_issue:
  "effects (logCleanupEvent example_executor 10 5 3 2 7 True 40 True [] quiet_world) =
     [Store Ambient
        (StoreAgentEvent
           (cleanup_event example_executor ''uuid'' 1001 10 7 True []
              (cleanup_data 10 5 3 2 7 True 40 True []))) None] \<and>
   IssueID (cleanup_event example_executor ''uuid'' 1001 10 7 True []
              (cleanup_data 10 5 3 2 7 True 40 True [])) = ''SYSTEM'' \<and>
   issues empty_database = [] \<and>
   VCStorage_StoreAgentEvent (\<lambda>d. Inr ''{}'') False None empty_database
     (cleanup_event example_executor ''uuid'' 1001 10 7 True []
        (cleanup_data 10 5 3 2 7 True 40 True [])) =
     (Some (Wrapped ''failed to store agent event'' foreign_key_failed), empty_database)"
  by (simp add: logCleanupEvent_def Let_def split_beta quiet_world_def quiet_outside_def
      store_call_def reply_def reply_at_def ctx_err_def ctx_err_at_def tick_def emit_def
      warn_on_def VCStorage_StoreAgentEvent_def insert_agent_event_def event_row_of_def
      null_if_empty_def cleanup_event_def empty_database_def)

text \<open>
  C8, amended. \<open>StoreAgentEvent\<close> writes NULL for an empty \<open>IssueID\<close>, and likewise
  for an empty \<open>ExecutorID\<close> and \<open>AgentID\<close>. So storing an event with an empty
  \<open>IssueID\<close> never fails on the foreign key to \<open>issues\<close>, whatever rows that table
  has, and succeeds when the data can be marshalled, the context is live and the
  driver does not fail. The event-cleanup summary of the executor is not such an
  event: its \<open>IssueID\<close> is \<open>SYSTEM\<close>, and where foreign keys are enforced it is stored
  exactly when an issue row with id \<open>SYSTEM\<close> exists.
\<close>

theorem StoreAgentEvent_null_issue_id:
  "(IssueID event = [] \<longrightarrow> row_issue_id (event_row_of event j) = None) \<and>
   (IssueID event \<noteq> [] \<longrightarrow> row_issue_id (event_row_of event j) = Some (IssueID event)) \<and>
   (ExecutorID event = [] \<longrightarrow> row_executor_id (event_row_of event j) = None) \<and>
   (AgentID event = [] \<longrightarrow> row_agent_id (event_row_of event j) = None) \<and>
   (IssueID event = [] \<longrightarrow>
      fst (VCStorage_StoreAgentEvent marshal ctx_done None db event) \<noteq>
        Some (Wrapped ''failed to store agent event'' foreign_key_failed)) \<and>
   (IssueID event = [] \<longrightarrow> (case Data event of None \<Rightarrow> Inr [] | Some d \<Rightarrow> marshal d) = Inr j \<longrightarrow>
      VCStorage_StoreAgentEvent marshal False None db event =
        (None, db\<lparr>vc_agent_events := vc_agent_events db @ [event_row_of event j]\<rparr>)) \<and>
   IssueID (cleanup_event e u t tot ms s m d') = ''SYSTEM'' \<and>
   (marshal d' = Inr j \<longrightarrow>
      VCStorage_StoreAgentEvent marshal False None db (cleanup_event e u t tot ms s m d') =
        (if foreign_keys db \<and> ''SYSTEM'' \<notin> set (issues db)
         then (Some (Wrapped ''failed to store agent event'' foreign_key_failed), db)
         else (None, db\<lparr>vc_agent_events := vc_agent_events db @
                  [event_row_of (cleanup_event e u t tot ms s m d') j]\<rparr>)))"
  using StoreAgentEvent_never_foreign_key [of event marshal ctx_done db]
    StoreAgentEvent_stored [of event marshal j db]
    StoreAgentEvent_cleanup_event [of marshal d' j db e u t tot ms s m]
  by (simp add: event_row_of_def null_if_empty_def cleanup_event_def)

theorem StoreAgentEvent_null_issue_id_witness:
  "IssueID ((cleanup_event example_executor ''uuid'' 1001 10 7 True [] [])\<lparr>IssueID := []\<rparr>) = [] \<and>
   VCStorage_StoreAgentEvent (\<lambda>d. Inr ''{}'') False None empty_database
     ((cleanup_event example_executor ''uuid'' 1001 10 7 True [] [])\<lparr>IssueID := []\<rparr>) =
     (None, empty_database\<lparr>vc_agent_events :=
        [event_row_of ((cleanup_event example_executor ''uuid'' 1001 10 7 True [] [])
           \<lparr>IssueID := []\<rparr>) ''{}'']\<rparr>) \<and>
   row_issue_id (event_row_of ((cleanup_event example_executor ''uuid'' 1001 10 7 True [] [])
     \<lparr>IssueID := []\<rparr>) ''{}'') = None \<and>
   fst (VCStorage_StoreAgentEvent (\<lambda>d. Inr ''{}'') False None
      (empty_database\<lparr>issues := [''SYSTEM'']\<rparr>)
      (cleanup_event example_executor ''uuid'' 1001 10 7 True [] [])) = None"
proof -
  let ?sys = "(cleanup_event example_executor ''uuid'' 1001 10 7 True [] [])\<lparr>IssueID := []\<rparr>"
  note t = StoreAgentEvent_null_issue_id [of ?sys "''{}''" "\<lambda>d. Inr ''{}''" False
      empty_database example_executor "''uuid''" 1001 10 7 True "[]" "[]"]
  note u = StoreAgentEvent_null_issue_id [of ?sys "''{}''" "\<lambda>d. Inr ''{}''" False
      "empty_database\<lparr>issues := [''SYSTEM'']\<rparr>" example_executor "''uuid''" 1001 10 7 True
      "[]" "[]"]
  have i: "IssueID ?sys = []"
    by simp
  have d: "(case Data ?sys of None \<Rightarrow> Inr [] | Some d \<Rightarrow> (\<lambda>d. Inr ''{}'') d) =
      (Inr ''{}'' :: go_error + string)"
    by (simp add: cleanup_event_def)
  have 1: "VCStorage_StoreAgentEvent (\<lambda>d. Inr ''{}'') False None empty_database ?sys =
     (None, empty_database\<lparr>vc_agent_events := vc_agent_events empty_database @
        [event_row_of ?sys ''{}'']\<rparr>)"
    using t i d by blast
  have 2: "row_issue_id (event_row_of ?sys ''{}'') = None"
    using t i by blast
  have "VCStorage_StoreAgentEvent (\<lambda>d. Inr ''{}'') False None
      (empty_database\<lparr>issues := [''SYSTEM'']\<rparr>)
      (cleanup_event example_executor ''uuid'' 1001 10 7 True [] []) =
      (if foreign_keys (empty_database\<lparr>issues := [''SYSTEM'']\<rparr>) \<and>
          ''SYSTEM'' \<notin> set (issues (empty_database\<lparr>issues := [''SYSTEM'']\<rparr>))
       then (Some (Wrapped ''failed to store agent event'' foreign_key_failed),
             empty_database\<lparr>issues := [''SYSTEM'']\<rparr>)
       else (None, empty_database\<lparr>issues := [''SYSTEM'']\<rparr>
               \<lparr>vc_agent_events := vc_agent_events (empty_database\<lparr>issues := [''SYSTEM'']\<rparr>) @
                  [event_row_of (cleanup_event example_executor ''uuid'' 1001 10 7 True [] [])
                     ''{}'']\<rparr>))"
    using u by blast
  then have 3: "fst (VCStorage_StoreAgentEvent (\<lambda>d. Inr ''{}'') False None
      (empty_database\<lparr>issues := [''SYSTEM'']\<rparr>)
      (cleanup_event example_executor ''uuid'' 1001 10 7 True [] [])) = None"
    by simp
  have e: "vc_agent_events empty_database = []"
    by (simp add: empty_database_def)
  show ?thesis
    using i 1 2 3 by (simp add: e)
qed

section \<open>The event-cleanup cycle\<close>

lemma bit_length_between:
  "2 ^ k \<le> n \<Longrightarrow> n < 2 ^ Suc k \<Longrightarrow> bit_length n = Suc k"
proof (induction k arbitrary: n)
  case 0
  then have "n = 1" by simp
  then show ?case
    by (simp add: bit_length.simps)
next
  case (Suc k)
  have "2 ^ k \<le> n div 2" and "n div 2 < 2 ^ Suc k"
    using Suc.prems by simp_all
  then have "bit_length (n div 2) = Suc k"
    by (rule Suc.IH)
  moreover have "n \<noteq> 0"
  proof
    assume "n = 0"
    with Suc.prems(1) show False by simp
  qed
  ultimately show ?case
    by (subst bit_length.simps) simp
qed

lemma bit_length_product: "bit_length 427841964600197100000 = 69"
proof -
  have "bit_length 427841964600197100000 = Suc 68"
    by (rule bit_length_between) simp_all
  then show ?thesis by simp
qed

lemma triggerThreshold_50000: "triggerThreshold 50000 = 47500"
  by (simp add: triggerThreshold_def round53_def Let_def float64_0_95_def bit_length_product)

text \<open>
  C6. As the claim states it, every cycle performs the three deletions and emits a
  summary event. When the executor's context is cancelled during the cycle (here
  after the age-based step), the per-issue step fails, the global-limit step is not
  called, and \<open>logCleanupEvent\<close> returns at once because the context is done: the
  cycle ends with two store calls and no summary event.
\<close>

theorem runEventCleanup_cancelled_without_summary:
  "fst (runEventCleanup example_executor example_retention shutdown_world) =
     Some (Wrapped ''per-issue limit cleanup failed'' Canceled) \<and>
   store_calls (effects (snd (runEventCleanup example_executor example_retention shutdown_world))) =
     [CleanupEventsByAge 30 180 1000, CleanupEventsByIssueLimit 1000 1000]"
  by (simp add: runEventCleanup_def Let_def split_beta logCleanupEvent_def shutdown_world_def
      quiet_world_def quiet_outside_def example_retention_def store_call_def reply_def
      reply_at_def ctx_err_def ctx_err_at_def tick_def emit_def)

text \<open>
  C6, amended. With \<open>n\<close> the clock at the start of the cycle, \<open>r1\<close>, \<open>r2\<close>,
  \<open>r3\<close> what the three cleanup calls return and \<open>a\<close>, \<open>b\<close>, \<open>c\<close> the counts they
  report: a cycle calls \<open>CleanupEventsByAge\<close> with the two retention periods, then,
  if that returned no error, \<open>CleanupEventsByIssueLimit\<close> with the per-issue limit,
  then, if that returned no error, \<open>CleanupEventsByGlobalLimit\<close> with the threshold
  \<open>int(float64(GlobalLimitEvents) * 0.95)\<close>, each with the configured batch size. The
  first step that fails ends the cycle with its error (wrapped). When all three
  succeed, \<open>VacuumDatabase\<close> is called exactly when \<open>CleanupVacuum\<close> is set and
  \<open>a + b + c\<close> is greater than zero, then \<open>GetEventCounts\<close>. Every cycle ends by
  handing the store one summary event, unless the context is done at that moment, in
  which case none is emitted. The summary's data holds the deleted counts, the
  remaining count, the elapsed milliseconds, whether VACUUM ran, and the success flag.
\<close>

theorem runEventCleanup_cycle:
  "(let n = clock w; out = outside w;
       r1 = reply_at Ambient out (n + 1);
       r2 = reply_at Ambient out (n + 2);
       r3 = reply_at Ambient out (n + 3);
       a = o_counts out (n + 1);
       b = o_counts out (n + 2);
       c = o_counts out (n + 3);
       total = a + b + c;
       vac = (CleanupVacuum cfg \<and> 0 <s total);
       k = (if vac then n + 5 else n + 4);
       vacuumRan = (vac \<and> reply_at Ambient out (n + 4) = None);
       remaining = (case reply_at Ambient out k of
                      Some err \<Rightarrow> 0
                    | None \<Rightarrow> (case o_event_counts out k of None \<Rightarrow> 0 | Some x \<Rightarrow> x));
       ms = (\<lambda>j. go_quot (o_wall out j - o_wall out n) 1000000);
       failed = (\<lambda>j tot x y msg.
                   if ctx_err_at out (j + 1) = None then
                     [StoreAgentEvent
                        (cleanup_event e (o_uuids out (j + 1)) (o_wall out (j + 2)) tot (ms j) False msg
                           (cleanup_data tot x y 0 (ms j) False 0 False msg))]
                   else []);
       age = CleanupEventsByAge (RetentionDays cfg) (RetentionCriticalDays cfg)
               (CleanupBatchSize cfg);
       per_issue = CleanupEventsByIssueLimit (PerIssueLimitEvents cfg) (CleanupBatchSize cfg);
       global = CleanupEventsByGlobalLimit (triggerThreshold (GlobalLimitEvents cfg))
                  (CleanupBatchSize cfg);
       res = fst (runEventCleanup e cfg w);
       calls = store_calls (effects (snd (runEventCleanup e cfg w)));
       before = store_calls (effects w)
   in (case r1 of
         Some err \<Rightarrow>
           res = Some (Wrapped ''time-based cleanup failed'' err) \<and>
           calls = before @ [age]
             @ failed (n + 2) 0 0 0 (error_text (Wrapped ''time-based cleanup failed'' err))
       | None \<Rightarrow>
          (case r2 of
             Some err \<Rightarrow>
               res = Some (Wrapped ''per-issue limit cleanup failed'' err) \<and>
               calls = before @ [age, per_issue]
                 @ failed (n + 3) a a 0 (error_text (Wrapped ''per-issue limit cleanup failed'' err))
           | None \<Rightarrow>
              (case r3 of
                 Some err \<Rightarrow>
                   res = Some (Wrapped ''global limit cleanup failed'' err) \<and>
                   calls = before @ [age, per_issue, global]
                     @ failed (n + 4) (a + b) a b
                         (error_text (Wrapped ''global limit cleanup failed'' err))
               | None \<Rightarrow>
                   res = None \<and>
                   calls = before @ [age, per_issue, global]
                     @ (if vac then [VacuumDatabase] else [])
                     @ [GetEventCounts]
                     @ (if ctx_err_at out (k + 2) = None then
                          [StoreAgentEvent
                             (cleanup_event e (o_uuids out (k + 2)) (o_wall out (k + 3)) total
                                (ms (k + 1)) True []
                                (cleanup_data total a b c (ms (k + 1)) vacuumRan remaining True []))]
                        else []))))) \<and>
   Data (cleanup_event e u t tot pms s m d) = Some d \<and>
   Type (cleanup_event e u t tot pms s m d) = EventTypeEventCleanupCompleted \<and>
   map_of (cleanup_data tot x y z pms v rem s m) ''events_deleted'' = Some (JInt (sint tot)) \<and>
   map_of (cleanup_data tot x y z pms v rem s m) ''time_based_deleted'' = Some (JInt (sint x)) \<and>
   map_of (cleanup_data tot x y z pms v rem s m) ''per_issue_deleted'' = Some (JInt (sint y)) \<and>
   map_of (cleanup_data tot x y z pms v rem s m) ''global_limit_deleted'' = Some (JInt (sint z)) \<and>
   map_of (cleanup_data tot x y z pms v rem s m) ''processing_time_ms'' = Some (JInt pms) \<and>
   map_of (cleanup_data tot x y z pms v rem s m) ''vacuum_ran'' = Some (JBool v) \<and>
   map_of (cleanup_data tot x y z pms v rem s m) ''events_remaining'' = Some (JInt (sint rem)) \<and>
   map_of (cleanup_data tot x y z pms v rem s m) ''success'' = Some (JBool s)"
  apply (intro conjI)
            apply (simp add: Let_def runEventCleanup_def split_beta logCleanupEvent_effects
      reply_def ctx_err_def eval_nat_numeral split: option.splits)
           apply (simp_all add: cleanup_data_def cleanup_event_def)
  done

theorem runEventCleanup_cycle_witness:
  "fst (runEventCleanup example_executor example_retention deleting_world) = None \<and>
   take 5 (store_calls (effects (snd (runEventCleanup example_executor example_retention
      deleting_world)))) =
     [CleanupEventsByAge 30 180 1000, CleanupEventsByIssueLimit 1000 1000,
      CleanupEventsByGlobalLimit 47500 1000, VacuumDatabase, GetEventCounts] \<and>
   length (store_calls (effects (snd (runEventCleanup example_executor example_retention
      deleting_world)))) = 6"
  using runEventCleanup_cycle [of deleting_world example_retention example_executor]
  by (simp add: Let_def deleting_world_def quiet_world_def quiet_outside_def example_retention_def
      reply_at_def ctx_err_at_def triggerThreshold_50000 word_sless_alt)

end
